theory Spec2Isabelle
  imports Complex_Main "HOL-Library.Product_Lexorder"
begin

section \<open>Data model (zengo/models.py)\<close>

text \<open>
  Rows of the four Django models. Primary keys are natural numbers handed out by the
  store, remote (Zendesk) ids are Python integers, nullable columns are options, and a
  foreign key holds the primary key of the row it points at. Timestamps are opaque
  values. Strings are byte strings. Column length limits and the 64-bit range of integer
  columns are properties of the database back end and are not modelled; the two
  clock-filled bookkeeping columns of \<open>Event\<close> (\<open>created_at\<close>, \<open>updated_at\<close>) are never
  read or written by the service and are left out.
\<close>

type_synonym timestamp = int

text \<open>\<open>Ticket.states\<close>: the six constants, named by their ids.\<close>

datatype status = New | Open | Pending | Hold | Solved | Closed

record zendesk_user =
  zu_id :: nat
  zu_zendesk_id :: int
  zu_name :: "string option"
  zu_email :: "string option"
  zu_user :: "nat option"
  zu_created_at :: timestamp

record ticket =
  tk_id :: nat
  tk_zendesk_id :: int
  tk_requester :: nat
  tk_subject :: "string option"
  tk_description :: "string option"
  tk_url :: "string option"
  tk_status :: status
  tk_custom_fields :: "string option"
  tk_tags :: "string option"
  tk_created_at :: timestamp
  tk_updated_at :: "timestamp option"

record comment =
  cm_id :: nat
  cm_zendesk_id :: int
  cm_ticket :: nat
  cm_author :: nat
  cm_body :: "string option"
  cm_public :: bool
  cm_created_at :: timestamp

record event =
  ev_id :: nat
  ev_raw_data :: string
  ev_remote_ticket_id :: "nat option"
  ev_error :: "string option"
  ev_ticket :: "nat option"

section \<open>Diff computation (ZengoProcessor.get_new_comments, get_updated_fields)\<close>

text \<open>
  The keyword arguments both functions receive: the update context built by
  \<open>process_event\<close>.
\<close>

record update_context =
  pre_ticket :: "ticket option"
  post_ticket :: "ticket option"
  pre_comments :: "comment list"
  post_comments :: "comment list"

text \<open>
  \<open>get_new_comments\<close>: only when \<open>post\<close> is strictly longer than \<open>pre\<close>, the set of
  remote ids of \<open>post\<close> minus that of \<open>pre\<close> is built and \<open>post\<close> is filtered by it.
\<close>

definition get_new_comments :: "update_context \<Rightarrow> comment list" where
  "get_new_comments ctx =
     (if length (post_comments ctx) > length (pre_comments ctx) then
        let new_comment_ids =
              set (map cm_zendesk_id (post_comments ctx)) - set (map cm_zendesk_id (pre_comments ctx))
        in filter (\<lambda>c. cm_zendesk_id c \<in> new_comment_ids) (post_comments ctx)
      else [])"

text \<open>
  \<open>model_to_dict\<close> of a Ticket: every editable concrete field, the foreign key as the
  primary key it holds. The dictionary is an association list in field order.
\<close>

datatype field_value =
  VNone | VInt int | VStr string | VStatus status | VTime timestamp

definition str_value :: "string option \<Rightarrow> field_value" where
  "str_value s = (case s of None \<Rightarrow> VNone | Some x \<Rightarrow> VStr x)"

definition time_value :: "timestamp option \<Rightarrow> field_value" where
  "time_value s = (case s of None \<Rightarrow> VNone | Some x \<Rightarrow> VTime x)"

definition model_to_dict :: "ticket \<Rightarrow> (string \<times> field_value) list" where
  "model_to_dict t =
     [(''id'', VInt (int (tk_id t))),
      (''zendesk_id'', VInt (tk_zendesk_id t)),
      (''requester'', VInt (int (tk_requester t))),
      (''subject'', str_value (tk_subject t)),
      (''description'', str_value (tk_description t)),
      (''url'', str_value (tk_url t)),
      (''status'', VStatus (tk_status t)),
      (''custom_fields'', str_value (tk_custom_fields t)),
      (''tags'', str_value (tk_tags t)),
      (''created_at'', VTime (tk_created_at t)),
      (''updated_at'', time_value (tk_updated_at t))]"

text \<open>\<open>d.get(k)\<close>: the value, or Python's \<open>None\<close> for a missing key.\<close>

definition dict_get :: "(string \<times> field_value) list \<Rightarrow> string \<Rightarrow> field_value" where
  "dict_get d k = (case map_of d k of None \<Rightarrow> VNone | Some v \<Rightarrow> v)"

text \<open>One entry of the \<open>updates\<close> dictionary: \<open>{"old": ..., "new": ...}\<close>.\<close>

datatype change = Change (old_value: field_value) (new_value: field_value)

text \<open>
  The loop of \<open>get_updated_fields\<close> over the keys of \<open>pre_fields\<close>, with the \<open>updates\<close>
  dictionary as accumulator.
\<close>

fun updated_fields_loop ::
  "string list \<Rightarrow> (string \<times> field_value) list \<Rightarrow> (string \<times> field_value) list \<Rightarrow>
   (string \<rightharpoonup> change) \<Rightarrow> (string \<rightharpoonup> change)" where
  "updated_fields_loop [] pre_fields post_fields updates = updates"
| "updated_fields_loop (k # ks) pre_fields post_fields updates =
     (if k \<in> {''created_at'', ''updated_at''} then
        updated_fields_loop ks pre_fields post_fields updates
      else if dict_get pre_fields k \<noteq> dict_get post_fields k then
        updated_fields_loop ks pre_fields post_fields
          (updates(k \<mapsto> Change (dict_get pre_fields k) (dict_get post_fields k)))
      else updated_fields_loop ks pre_fields post_fields updates)"

definition get_updated_fields :: "update_context \<Rightarrow> (string \<rightharpoonup> change)" where
  "get_updated_fields ctx =
     (case (pre_ticket ctx, post_ticket ctx) of
        (Some pre, Some post) \<Rightarrow>
          (let pre_fields = model_to_dict pre; post_fields = model_to_dict post
           in updated_fields_loop (map fst pre_fields) pre_fields post_fields Map.empty)
      | _ \<Rightarrow> Map.empty)"

text \<open>\<open>get_updates\<close>: both parts of the diff.\<close>

record updates =
  new_comments :: "comment list"
  updated_fields :: "string \<rightharpoonup> change"

definition get_updates :: "update_context \<Rightarrow> updates" where
  "get_updates ctx =
     \<lparr>new_comments = get_new_comments ctx, updated_fields = get_updated_fields ctx\<rparr>"

section \<open>Exceptions, JSON values and the collaborators of the service\<close>

text \<open>
  Every exception the code can meet is a value; an operation on the store returns the
  outcome together with the store it leaves behind, so that what a failed call has
  already written is visible until a transaction discards it.
\<close>

datatype py_error =
    ValueError | TypeError | KeyError | AttributeError | OverflowError
  | ValidationError string
  | IntegrityError | MultipleObjectsReturned | DatabaseError
  | APIException

text \<open>
  What \<open>json.loads\<close> returns. A float is a rational or one of the three special values
  Python's decoder accepts; an object is an association list.
\<close>

datatype pyfloat = Finite rat | PosInf | NegInf | NaN

datatype json =
    JNull | JBool bool | JInt int | JFloat pyfloat | JStr string
  | JList "json list" | JDict "(string \<times> json) list"

text \<open>The remote objects the Zendesk client hands over.\<close>

record remote_user =
  ru_id :: int
  ru_name :: "string option"
  ru_email :: "string option"
  ru_external_id :: "string option"
  ru_created_at :: timestamp

record remote_comment =
  rc_id :: int
  rc_author :: remote_user
  rc_body :: "string option"
  rc_public :: bool
  rc_created_at :: timestamp

record remote_ticket =
  rt_id :: int
  rt_requester :: remote_user
  rt_subject :: "string option"
  rt_description :: "string option"
  rt_url :: "string option"
  rt_status :: string
  rt_custom_fields :: "string option"
  rt_tags :: "string option"
  rt_created_at :: timestamp
  rt_updated_at :: "timestamp option"

text \<open>
  The local account (the Django user): the three attributes the service reads, and the
  \<open>emailaddress_set\<close> relation (address, verified) that the disabled e-mail tier of
  \<open>get_remote_zd_user_for_local_user\<close> mentions.
\<close>

record local_user =
  lu_id :: nat
  lu_first_name :: string
  lu_email :: string
  emailaddress_set :: "(string \<times> bool) list"

text \<open>
  The code outside this repository that the service calls, taken as parameters:
  the JSON decoder, \<open>int\<close> on a string, the \<open>message\<close> attribute of a caught exception
  (absent on Python 3), \<open>traceback.format_exc\<close>, the Zendesk client
  (\<open>client.tickets(id=...)\<close>, \<open>client.tickets.comments(...)\<close>, \<open>client.search\<close> by external
  id and by e-mail) and the look-up of a local account by external id
  (\<open>get_local_user_for_external_id\<close>, a query on the project's own user table).
\<close>

record env =
  json_loads :: "string \<Rightarrow> py_error + json"
  int_of_str :: "string \<Rightarrow> int option"
  message :: "py_error \<Rightarrow> string option"
  format_exc :: "py_error \<Rightarrow> string"
  client_tickets :: "int \<Rightarrow> py_error + remote_ticket"
  client_tickets_comments :: "int \<Rightarrow> py_error + remote_comment list"
  client_search_external_id :: "nat \<Rightarrow> py_error + remote_user list"
  client_search_email :: "string \<Rightarrow> py_error + remote_user list"
  get_local_user_for_external_id :: "string option \<Rightarrow> py_error + nat option"

text \<open>The store: the four tables, each a list of rows in insertion order.\<close>

record db =
  zendesk_users :: "zendesk_user list"
  tickets :: "ticket list"
  comments :: "comment list"
  events :: "event list"

text \<open>The primary key an insert receives: one more than the largest in the table.\<close>

definition next_pk :: "nat list \<Rightarrow> nat" where
  "next_pk pks = Suc (fold max pks 0)"

text \<open>\<open>data["id"]\<close>: only a dictionary can be subscripted by a string.\<close>

definition subscript_id :: "json \<Rightarrow> py_error + json" where
  "subscript_id data =
     (case data of
        JDict kvs \<Rightarrow> (case map_of kvs ''id'' of None \<Rightarrow> Inl KeyError | Some v \<Rightarrow> Inr v)
      | _ \<Rightarrow> Inl TypeError)"

text \<open>
  Python's \<open>int(x)\<close> on a decoded JSON value: a float is truncated towards zero
  (infinities overflow, NaN is a \<open>ValueError\<close>), a string is parsed, and \<open>None\<close>, lists and
  dictionaries are a \<open>TypeError\<close>.
\<close>

definition py_int :: "env \<Rightarrow> json \<Rightarrow> py_error + int" where
  "py_int env x =
     (case x of
        JInt n \<Rightarrow> Inr n
      | JBool b \<Rightarrow> Inr (if b then 1 else 0)
      | JFloat f \<Rightarrow>
          (case f of
             Finite q \<Rightarrow> Inr (if 0 \<le> q then \<lfloor>q\<rfloor> else \<lceil>q\<rceil>)
           | NaN \<Rightarrow> Inl ValueError
           | _ \<Rightarrow> Inl OverflowError)
      | JStr s \<Rightarrow> (case int_of_str env s of None \<Rightarrow> Inl ValueError | Some n \<Rightarrow> Inr n)
      | _ \<Rightarrow> Inl TypeError)"

section \<open>Resolving a local account to a remote identity (ZengoService)\<close>

definition get_local_user_external_id :: "local_user \<Rightarrow> nat" where
  "get_local_user_external_id local_user = lu_id local_user"

text \<open>
  \<open>get_remote_zd_user_for_local_user\<close>: search by external id, then (the tier through
  \<open>emailaddress_set\<close> being commented out in the source) by \<open>local_user.email\<close> when it is
  not empty. \<open>result.count\<close> is the length of the result, \<open>result.next()\<close> its first item.
\<close>

definition get_remote_zd_user_for_local_user ::
  "env \<Rightarrow> local_user \<Rightarrow> py_error + (remote_user option \<times> bool)" where
  "get_remote_zd_user_for_local_user env local_user =
     (case client_search_external_id env (get_local_user_external_id local_user) of
        Inl e \<Rightarrow> Inl e
      | Inr (u # _) \<Rightarrow> Inr (Some u, True)
      | Inr [] \<Rightarrow>
          (if lu_email local_user \<noteq> [] then
             (case client_search_email env (lu_email local_user) of
                Inl e \<Rightarrow> Inl e
              | Inr (u # _) \<Rightarrow> Inr (Some u, False)
              | Inr [] \<Rightarrow> Inr (None, False))
           else Inr (None, False)))"

section \<open>Upserts (Django's \<open>update_or_create\<close> on the three synchronised models)\<close>

text \<open>
  \<open>Model.objects.update_or_create(**lookup, defaults=...)\<close> runs in a transaction of its
  own: \<open>get(**lookup)\<close> finds no row (a row is created from the look-up values and the
  defaults), one row (the defaults are set on it and it is saved by primary key), or several
  (\<open>MultipleObjectsReturned\<close>); whatever fails leaves the store as it was. The result is
  the object and the \<open>created\<close> flag; the object is identified with the row written. For
  \<open>ZendeskUser\<close> and \<open>Ticket\<close> the look-up is the unique column \<open>zendesk_id\<close> itself, so an
  insert cannot collide. The rows a foreign key points at have just been written by the
  caller, so foreign-key constraints cannot fail and are not checked.
\<close>

record zendesk_user_defaults =
  ud_user :: "nat option"
  ud_email :: "string option"
  ud_created_at :: timestamp
  ud_name :: "string option"

definition ZendeskUser_update_or_create ::
  "int \<Rightarrow> zendesk_user_defaults \<Rightarrow> db \<Rightarrow> (py_error + zendesk_user \<times> bool) \<times> db" where
  "ZendeskUser_update_or_create zendesk_id d db =
     (case filter (\<lambda>r. zu_zendesk_id r = zendesk_id) (zendesk_users db) of
        [] \<Rightarrow>
          (let obj = \<lparr>zu_id = next_pk (map zu_id (zendesk_users db)),
                      zu_zendesk_id = zendesk_id, zu_name = ud_name d, zu_email = ud_email d,
                      zu_user = ud_user d, zu_created_at = ud_created_at d\<rparr>
           in (Inr (obj, True), db\<lparr>zendesk_users := zendesk_users db @ [obj]\<rparr>))
      | [obj] \<Rightarrow>
          (let obj' = obj\<lparr>zu_user := ud_user d, zu_email := ud_email d,
                          zu_created_at := ud_created_at d, zu_name := ud_name d\<rparr>
           in (Inr (obj', False),
               db\<lparr>zendesk_users :=
                     map (\<lambda>r. if zu_id r = zu_id obj' then obj' else r) (zendesk_users db)\<rparr>))
      | _ \<Rightarrow> (Inl MultipleObjectsReturned, db))"

text \<open>
  The defaults of a Ticket carry the status as \<open>by_id.get\<close> returned it, possibly \<open>None\<close>.
  The \<open>status\<close> column is declared without \<open>null=True\<close>: writing \<open>None\<close> into it, by insert
  or by update, violates the NOT NULL constraint (\<open>IntegrityError\<close>).
\<close>

record ticket_defaults =
  td_requester :: zendesk_user
  td_subject :: "string option"
  td_description :: "string option"
  td_url :: "string option"
  td_status :: "status option"
  td_custom_fields :: "string option"
  td_tags :: "string option"
  td_created_at :: timestamp
  td_updated_at :: "timestamp option"

definition Ticket_update_or_create ::
  "int \<Rightarrow> ticket_defaults \<Rightarrow> db \<Rightarrow> (py_error + ticket \<times> bool) \<times> db" where
  "Ticket_update_or_create zendesk_id d db =
     (case filter (\<lambda>r. tk_zendesk_id r = zendesk_id) (tickets db) of
        [] \<Rightarrow>
          (case td_status d of
             None \<Rightarrow> (Inl IntegrityError, db)
           | Some st \<Rightarrow>
               (let obj = \<lparr>tk_id = next_pk (map tk_id (tickets db)), tk_zendesk_id = zendesk_id,
                           tk_requester = zu_id (td_requester d), tk_subject = td_subject d,
                           tk_description = td_description d, tk_url = td_url d,
                           tk_status = st, tk_custom_fields = td_custom_fields d,
                           tk_tags = td_tags d, tk_created_at = td_created_at d,
                           tk_updated_at = td_updated_at d\<rparr>
                in (Inr (obj, True), db\<lparr>tickets := tickets db @ [obj]\<rparr>)))
      | [obj] \<Rightarrow>
          (case td_status d of
             None \<Rightarrow> (Inl IntegrityError, db)
           | Some st \<Rightarrow>
               (let obj' = obj\<lparr>tk_requester := zu_id (td_requester d),
                               tk_subject := td_subject d, tk_description := td_description d,
                               tk_url := td_url d, tk_status := st,
                               tk_custom_fields := td_custom_fields d, tk_tags := td_tags d,
                               tk_created_at := td_created_at d,
                               tk_updated_at := td_updated_at d\<rparr>
                in (Inr (obj', False),
                    db\<lparr>tickets := map (\<lambda>r. if tk_id r = tk_id obj' then obj' else r) (tickets db)\<rparr>)))
      | _ \<Rightarrow> (Inl MultipleObjectsReturned, db))"

text \<open>
  A Comment is looked up by \<open>(zendesk_id, ticket)\<close>, but its \<open>zendesk_id\<close> column is unique
  on its own: an insert whose remote id is already stored (then necessarily under another
  ticket) violates that constraint.
\<close>

record comment_defaults =
  cd_author :: zendesk_user
  cd_body :: "string option"
  cd_public :: bool
  cd_created_at :: timestamp

definition Comment_update_or_create ::
  "int \<Rightarrow> ticket \<Rightarrow> comment_defaults \<Rightarrow> db \<Rightarrow> (py_error + comment \<times> bool) \<times> db" where
  "Comment_update_or_create zendesk_id ticket d db =
     (case filter (\<lambda>r. cm_zendesk_id r = zendesk_id \<and> cm_ticket r = tk_id ticket) (comments db) of
        [] \<Rightarrow>
          (if \<exists>r \<in> set (comments db). cm_zendesk_id r = zendesk_id then (Inl IntegrityError, db)
           else
             (let obj = \<lparr>cm_id = next_pk (map cm_id (comments db)), cm_zendesk_id = zendesk_id,
                         cm_ticket = tk_id ticket, cm_author = zu_id (cd_author d),
                         cm_body = cd_body d, cm_public = cd_public d,
                         cm_created_at = cd_created_at d\<rparr>
              in (Inr (obj, True), db\<lparr>comments := comments db @ [obj]\<rparr>)))
      | [obj] \<Rightarrow>
          (let obj' = obj\<lparr>cm_author := zu_id (cd_author d), cm_body := cd_body d,
                          cm_public := cd_public d, cm_created_at := cd_created_at d\<rparr>
           in (Inr (obj', False),
               db\<lparr>comments := map (\<lambda>r. if cm_id r = cm_id obj' then obj' else r) (comments db)\<rparr>))
      | _ \<Rightarrow> (Inl MultipleObjectsReturned, db))"

section \<open>The Ticket Synchronizer (ZengoService)\<close>

definition update_or_create_local_zd_user_for_remote_zd_user ::
  "env \<Rightarrow> remote_user \<Rightarrow> db \<Rightarrow> (py_error + zendesk_user) \<times> db" where
  "update_or_create_local_zd_user_for_remote_zd_user env remote_zd_user db =
     (case get_local_user_for_external_id env (ru_external_id remote_zd_user) of
        Inl e \<Rightarrow> (Inl e, db)
      | Inr user \<Rightarrow>
          (case ZendeskUser_update_or_create (ru_id remote_zd_user)
                  \<lparr>ud_user = user, ud_email = ru_email remote_zd_user,
                   ud_created_at = ru_created_at remote_zd_user,
                   ud_name = ru_name remote_zd_user\<rparr> db of
             (Inl e, db') \<Rightarrow> (Inl e, db')
           | (Inr (instance, created), db') \<Rightarrow> (Inr instance, db')))"

text \<open>
  The \<open>if\<close>/\<open>else\<close> at the head of the loop body of \<open>sync_comments\<close>: the author of a
  comment is taken from \<open>user_map\<close>, or upserted and entered into it.
\<close>

definition comment_author ::
  "env \<Rightarrow> (remote_user \<rightharpoonup> zendesk_user) \<Rightarrow> remote_user \<Rightarrow> db \<Rightarrow>
   (py_error + zendesk_user \<times> (remote_user \<rightharpoonup> zendesk_user)) \<times> db" where
  "comment_author env user_map remote_author db =
     (case user_map remote_author of
        None \<Rightarrow>
          (case update_or_create_local_zd_user_for_remote_zd_user env remote_author db of
             (Inl e, db1) \<Rightarrow> (Inl e, db1)
           | (Inr author, db1) \<Rightarrow> (Inr (author, user_map(remote_author \<mapsto> author)), db1))
      | Some author \<Rightarrow> (Inr (author, user_map), db))"

text \<open>
  The loop of \<open>sync_comments\<close> over the remote comments, with \<open>user_map\<close> and
  \<open>local_comments\<close> as accumulators.
\<close>

fun sync_comments_loop ::
  "env \<Rightarrow> ticket \<Rightarrow> remote_comment list \<Rightarrow> (remote_user \<rightharpoonup> zendesk_user) \<Rightarrow> comment list \<Rightarrow>
   db \<Rightarrow> (py_error + comment list) \<times> db" where
  "sync_comments_loop env local_ticket [] user_map local_comments db = (Inr local_comments, db)"
| "sync_comments_loop env local_ticket (remote_comment # rest) user_map local_comments db =
     (case comment_author env user_map (rc_author remote_comment) db of
        (Inl e, db1) \<Rightarrow> (Inl e, db1)
      | (Inr (author, user_map'), db1) \<Rightarrow>
          (case Comment_update_or_create (rc_id remote_comment) local_ticket
                  \<lparr>cd_author = author, cd_body = rc_body remote_comment,
                   cd_public = rc_public remote_comment,
                   cd_created_at = rc_created_at remote_comment\<rparr> db1 of
             (Inl e, db2) \<Rightarrow> (Inl e, db2)
           | (Inr (local_comment, created), db2) \<Rightarrow>
               sync_comments_loop env local_ticket rest user_map'
                 (local_comments @ [local_comment]) db2))"

text \<open>
  \<open>sync_comments\<close>. \<open>local_ticket.requester\<close> is the object \<open>sync_ticket\<close> has just put
  there, passed here as \<open>requester\<close>. The result is sorted by \<open>(created_at, id)\<close>.
\<close>

definition sync_comments ::
  "env \<Rightarrow> remote_ticket \<Rightarrow> ticket \<Rightarrow> zendesk_user \<Rightarrow> db \<Rightarrow> (py_error + comment list) \<times> db" where
  "sync_comments env zd_ticket local_ticket requester db =
     (case client_tickets_comments env (rt_id zd_ticket) of
        Inl e \<Rightarrow> (Inl e, db)
      | Inr remote_comments \<Rightarrow>
          (case sync_comments_loop env local_ticket remote_comments
                  [rt_requester zd_ticket \<mapsto> requester] [] db of
             (Inl e, db') \<Rightarrow> (Inl e, db')
           | (Inr local_comments, db') \<Rightarrow>
               (Inr (sort_key (\<lambda>c. (cm_created_at c, cm_id c)) local_comments), db')))"

text \<open>\<open>str.lower\<close> on a byte string, and the dictionary \<open>Ticket.states.by_id\<close>.\<close>

definition lower_char :: "char \<Rightarrow> char" where
  "lower_char c =
     (let n = (of_char c :: nat) in if 65 \<le> n \<and> n \<le> 90 then char_of (n + 32) else c)"

definition lower :: "string \<Rightarrow> string" where
  "lower s = map lower_char s"

definition states_by_id :: "string \<rightharpoonup> status" where
  "states_by_id =
     map_of [(''new'', New), (''open'', Open), (''pending'', Pending), (''hold'', Hold),
             (''solved'', Solved), (''closed'', Closed)]"

definition sync_ticket ::
  "env \<Rightarrow> remote_ticket \<Rightarrow> db \<Rightarrow> (py_error + ticket \<times> bool) \<times> db" where
  "sync_ticket env remote_zd_ticket db =
     (case update_or_create_local_zd_user_for_remote_zd_user env
             (rt_requester remote_zd_ticket) db of
        (Inl e, db1) \<Rightarrow> (Inl e, db1)
      | (Inr local_zd_user, db1) \<Rightarrow>
          (case Ticket_update_or_create (rt_id remote_zd_ticket)
                  \<lparr>td_requester = local_zd_user,
                   td_subject = rt_subject remote_zd_ticket,
                   td_description = rt_description remote_zd_ticket,
                   td_url = rt_url remote_zd_ticket,
                   td_status = states_by_id (lower (rt_status remote_zd_ticket)),
                   td_custom_fields = rt_custom_fields remote_zd_ticket,
                   td_tags = rt_tags remote_zd_ticket,
                   td_created_at = rt_created_at remote_zd_ticket,
                   td_updated_at = rt_updated_at remote_zd_ticket\<rparr> db1 of
             (Inl e, db2) \<Rightarrow> (Inl e, db2)
           | (Inr (local_ticket, created), db2) \<Rightarrow>
               (case sync_comments env remote_zd_ticket local_ticket local_zd_user db2 of
                  (Inl e, db3) \<Rightarrow> (Inl e, db3)
                | (Inr local_comments, db3) \<Rightarrow> (Inr (local_ticket, created), db3))))"

definition sync_ticket_id :: "env \<Rightarrow> int \<Rightarrow> db \<Rightarrow> (py_error + ticket \<times> bool) \<times> db" where
  "sync_ticket_id env ticket_id db =
     (case client_tickets env ticket_id of
        Inl e \<Rightarrow> (Inl e, db)
      | Inr remote_zd_ticket \<Rightarrow> sync_ticket env remote_zd_ticket db)"

section \<open>The Event Store (ZengoProcessor.store_event)\<close>

text \<open>\<open>Event.objects.create(raw_data=data)\<close>: a new row, every other column at its default.\<close>

definition Event_create :: "string \<Rightarrow> db \<Rightarrow> event \<times> db" where
  "Event_create data db =
     (let event = \<lparr>ev_id = next_pk (map ev_id (events db)), ev_raw_data = data,
                   ev_remote_ticket_id = None, ev_error = None, ev_ticket = None\<rparr>
      in (event, db\<lparr>events := events db @ [event]\<rparr>))"

text \<open>\<open>event.save()\<close>: the row with the object's primary key is rewritten, or inserted.\<close>

definition Event_save :: "event \<Rightarrow> db \<Rightarrow> db" where
  "Event_save event db =
     (if \<exists>r \<in> set (events db). ev_id r = ev_id event
      then db\<lparr>events := map (\<lambda>r. if ev_id r = ev_id event then event else r) (events db)\<rparr>
      else db\<lparr>events := events db @ [event]\<rparr>)"

text \<open>
  \<open>event.save(update_fields=("error",))\<close>: only the \<open>error\<close> column of the row with the
  object's primary key is written; Django raises \<open>DatabaseError\<close> when no row was affected.
\<close>

definition Event_save_error :: "event \<Rightarrow> db \<Rightarrow> (py_error + unit) \<times> db" where
  "Event_save_error event db =
     (if \<exists>r \<in> set (events db). ev_id r = ev_id event
      then (Inr (),
            db\<lparr>events :=
                  map (\<lambda>r. if ev_id r = ev_id event then r\<lparr>ev_error := ev_error event\<rparr> else r)
                    (events db)\<rparr>)
      else (Inl DatabaseError, db))"

text \<open>
  \<open>Event.json\<close> is a property with a getter only (models.py): reading it decodes the raw
  payload, assigning to it raises \<open>AttributeError\<close>. \<open>json\<close> is not a column either, so
  \<open>save(update_fields=("json",))\<close> would raise \<open>ValueError\<close>.
\<close>

definition Event_json :: "env \<Rightarrow> event \<Rightarrow> py_error + json" where
  "Event_json env event = json_loads env (ev_raw_data event)"

definition Event_set_json :: "event \<Rightarrow> json \<Rightarrow> py_error + event" where
  "Event_set_json event data = Inl AttributeError"

definition Event_save_json :: "event \<Rightarrow> db \<Rightarrow> (py_error + unit) \<times> db" where
  "Event_save_json event db = (Inl ValueError, db)"

text \<open>
  \<open>store_event\<close>. The row is created and saved first. A \<open>TypeError\<close> or \<open>ValueError\<close> of the
  decoder is turned into a \<open>ValidationError\<close> carrying \<open>e.message\<close>; of what
  \<open>int(data["id"])\<close> raises, \<open>KeyError\<close> and \<open>ValueError\<close> are turned into
  \<open>ValidationError("`id` not found in data")\<close> and anything else propagates. Then the
  decoded data is assigned to \<open>event.json\<close>, the event saved and returned.
\<close>

definition store_event :: "env \<Rightarrow> string \<Rightarrow> db \<Rightarrow> (py_error + event) \<times> db" where
  "store_event env data db =
     (case Event_create data db of
        (event, db1) \<Rightarrow>
          (let db2 = Event_save event db1 in
           case json_loads env data of
             Inl e \<Rightarrow>
               (if e = TypeError \<or> e = ValueError then
                  (case message env e of
                     None \<Rightarrow> (Inl AttributeError, db2)
                   | Some m \<Rightarrow> (Inl (ValidationError m), db2))
                else (Inl e, db2))
           | Inr parsed \<Rightarrow>
               (case (case subscript_id parsed of Inl e \<Rightarrow> Inl e | Inr v \<Rightarrow> py_int env v) of
                  Inl e \<Rightarrow>
                    (if e = KeyError then (Inl (ValidationError ''`id` not found in data''), db2)
                     else if e = ValueError then
                       (Inl (ValidationError ''`id` not found in data''), db2)
                     else (Inl e, db2))
                | Inr n \<Rightarrow>
                    (case Event_set_json event parsed of
                       Inl e \<Rightarrow> (Inl e, db2)
                     | Inr event' \<Rightarrow>
                         (case Event_save_json event' db2 of
                            (Inl e, db3) \<Rightarrow> (Inl e, db3)
                          | (Inr u, db3) \<Rightarrow> (Inr event', db3))))))"

section \<open>The Reconciliation Pipeline (ZengoProcessor)\<close>

text \<open>
  The two signals, with the keyword arguments they are sent with. The receivers are outside
  the repository: sending a signal is recorded, and no receiver raises.
\<close>

datatype notification =
    Ticket_created ticket update_context
  | Ticket_updated ticket updates update_context

text \<open>
  \<open>Ticket.objects.filter(zendesk_id=ticket_id).first()\<close>: the match with the smallest
  primary key, if any. \<open>ticket.comments.all()\<close>: the rows whose foreign key is the ticket.
\<close>

definition Ticket_filter_first :: "int \<Rightarrow> db \<Rightarrow> ticket option" where
  "Ticket_filter_first zendesk_id db =
     (case filter (\<lambda>r. tk_zendesk_id r = zendesk_id) (tickets db) of
        [] \<Rightarrow> None
      | r # rs \<Rightarrow> Some (fold (\<lambda>x m. if tk_id x < tk_id m then x else m) rs r))"

definition ticket_comments_all :: "ticket \<Rightarrow> db \<Rightarrow> comment list" where
  "ticket_comments_all t db = filter (\<lambda>c. cm_ticket c = tk_id t) (comments db)"

text \<open>
  \<open>process_event\<close>. Its first statement is \<open>ticket_id = int(event.json["id"])\<close>.
  \<open>acquire_ticket_lock\<close> is the no-op context manager of the class and \<open>get_service()\<close>
  the default \<open>ZengoService\<close>. The result is the list of signals sent.
\<close>

definition event_ticket_id :: "env \<Rightarrow> event \<Rightarrow> py_error + int" where
  "event_ticket_id env event =
     (case Event_json env event of
        Inl e \<Rightarrow> Inl e
      | Inr data \<Rightarrow> (case subscript_id data of Inl e \<Rightarrow> Inl e | Inr v \<Rightarrow> py_int env v))"

definition process_event :: "env \<Rightarrow> event \<Rightarrow> db \<Rightarrow> (py_error + notification list) \<times> db" where
  "process_event env event db =
     (case event_ticket_id env event of
        Inl e \<Rightarrow> (Inl e, db)
      | Inr ticket_id \<Rightarrow>
          (let pre_sync_ticket = Ticket_filter_first ticket_id db;
               pre_sync_comments =
                 (case pre_sync_ticket of None \<Rightarrow> [] | Some t \<Rightarrow> ticket_comments_all t db)
           in case sync_ticket_id env ticket_id db of
                (Inl e, db') \<Rightarrow> (Inl e, db')
              | (Inr (post_sync_ticket, created), db') \<Rightarrow>
                  (let post_sync_comments = ticket_comments_all post_sync_ticket db';
                       update_context =
                         \<lparr>pre_ticket = pre_sync_ticket, post_ticket = Some post_sync_ticket,
                          pre_comments = pre_sync_comments,
                          post_comments = post_sync_comments\<rparr>
                   in if created \<and> post_sync_comments = [] then
                        (Inr [Ticket_created post_sync_ticket update_context], db')
                      else
                        (Inr [Ticket_updated post_sync_ticket (get_updates update_context)
                                update_context], db'))))"

text \<open>
  \<open>process_event_and_record_errors\<close>. \<open>transaction.atomic()\<close> keeps the writes of a
  \<open>process_event\<close> that returns and discards those of one that raises; the handler then
  writes the formatted traceback into the event's \<open>error\<close> column and re-raises. Nothing
  is done after a successful \<open>process_event\<close>.
\<close>

definition process_event_and_record_errors ::
  "env \<Rightarrow> event \<Rightarrow> db \<Rightarrow> (py_error + notification list) \<times> db" where
  "process_event_and_record_errors env event db =
     (case process_event env event db of
        (Inr sent, db') \<Rightarrow> (Inr sent, db')
      | (Inl e, db') \<Rightarrow>
          (case Event_save_error (event\<lparr>ev_error := Some (format_exc env e)\<rparr>) db of
             (Inl e', db'') \<Rightarrow> (Inl e', db'')
           | (Inr u, db'') \<Rightarrow> (Inl e, db'')))"

definition begin_processing_event ::
  "env \<Rightarrow> event \<Rightarrow> db \<Rightarrow> (py_error + notification list) \<times> db" where
  "begin_processing_event env event db = process_event_and_record_errors env event db"

section \<open>Settled rows and consistent remote snapshots\<close>

text \<open>
  The primary keys of each synchronised table are pairwise different.
\<close>

definition pks_distinct :: "db \<Rightarrow> bool" where
  "pks_distinct db \<longleftrightarrow>
     distinct (map zu_id (zendesk_users db)) \<and> distinct (map tk_id (tickets db))
     \<and> distinct (map cm_id (comments db))"

text \<open>
  A ZendeskUser row is settled for a look-up and defaults when it is the only match of the
  look-up and already carries the defaults; likewise for Ticket and Comment rows.
\<close>

definition zu_settled :: "int \<Rightarrow> zendesk_user_defaults \<Rightarrow> zendesk_user \<Rightarrow> db \<Rightarrow> bool" where
  "zu_settled z d u db \<longleftrightarrow>
     filter (\<lambda>r. zu_zendesk_id r = z) (zendesk_users db) = [u]
     \<and> zu_user u = ud_user d \<and> zu_email u = ud_email d
     \<and> zu_created_at u = ud_created_at d \<and> zu_name u = ud_name d"

definition tk_settled :: "int \<Rightarrow> ticket_defaults \<Rightarrow> ticket \<Rightarrow> db \<Rightarrow> bool" where
  "tk_settled z d t db \<longleftrightarrow>
     filter (\<lambda>r. tk_zendesk_id r = z) (tickets db) = [t]
     \<and> tk_requester t = zu_id (td_requester d) \<and> tk_subject t = td_subject d
     \<and> tk_description t = td_description d \<and> tk_url t = td_url d
     \<and> td_status d = Some (tk_status t) \<and> tk_custom_fields t = td_custom_fields d
     \<and> tk_tags t = td_tags d \<and> tk_created_at t = td_created_at d
     \<and> tk_updated_at t = td_updated_at d"

definition cm_settled :: "int \<Rightarrow> ticket \<Rightarrow> comment_defaults \<Rightarrow> comment \<Rightarrow> db \<Rightarrow> bool" where
  "cm_settled z t d c db \<longleftrightarrow>
     filter (\<lambda>r. cm_zendesk_id r = z \<and> cm_ticket r = tk_id t) (comments db) = [c]
     \<and> cm_author c = zu_id (cd_author d) \<and> cm_body c = cd_body d
     \<and> cm_public c = cd_public d \<and> cm_created_at c = cd_created_at d"

text \<open>
  Replacing one row of a table by another.
\<close>

definition replace_row :: "'r \<Rightarrow> 'r \<Rightarrow> 'r list \<Rightarrow> 'r list" where
  "replace_row obj obj' rows = map (\<lambda>r. if r = obj then obj' else r) rows"

text \<open>
  The same for the remote objects: a remote user is settled in the store as a given row, and a
  remote comment is synced under a ticket when its author is settled and its own row is
  settled with that author.
\<close>

definition user_settled :: "env \<Rightarrow> remote_user \<Rightarrow> zendesk_user \<Rightarrow> db \<Rightarrow> bool" where
  "user_settled env ru u db \<longleftrightarrow>
     (\<exists>user. get_local_user_for_external_id env (ru_external_id ru) = Inr user
        \<and> zu_settled (ru_id ru)
             \<lparr>ud_user = user, ud_email = ru_email ru, ud_created_at = ru_created_at ru,
              ud_name = ru_name ru\<rparr> u db)"

definition comment_synced :: "env \<Rightarrow> ticket \<Rightarrow> remote_comment \<Rightarrow> db \<Rightarrow> bool" where
  "comment_synced env t rc db \<longleftrightarrow>
     (\<exists>u c. user_settled env (rc_author rc) u db
        \<and> cm_settled (rc_id rc) t
             \<lparr>cd_author = u, cd_body = rc_body rc, cd_public = rc_public rc,
              cd_created_at = rc_created_at rc\<rparr> c db)"

text \<open>
  Every entry of \<open>user_map\<close> is a remote user of the given set, settled as the row it maps to.
\<close>

definition user_map_settled ::
  "env \<Rightarrow> remote_user set \<Rightarrow> (remote_user \<rightharpoonup> zendesk_user) \<Rightarrow> db \<Rightarrow> bool" where
  "user_map_settled env S um db \<longleftrightarrow>
     (\<forall>ru u. um ru = Some u \<longrightarrow> ru \<in> S \<and> user_settled env ru u db)"

text \<open>
  A consistent snapshot of the remote side: among the comments of the ticket the remote
  comment id determines the comment, and among the requester and the authors the remote user
  id determines the user.
\<close>

definition remote_consistent :: "remote_ticket \<Rightarrow> remote_comment list \<Rightarrow> bool" where
  "remote_consistent rt rcs \<longleftrightarrow>
     inj_on rc_id (set rcs) \<and> inj_on ru_id (insert (rt_requester rt) (rc_author ` set rcs))"

section \<open>Example data\<close>

text \<open>
  A small world for the closed statements below: the decoder and \<open>int\<close> on the payloads
  used, two remote users, the remote ticket 42 with no comments, and an empty store.
\<close>

definition example_json_loads :: "string \<Rightarrow> py_error + json" where
  \<open>example_json_loads s =
     (if s = ''{"id": "42"}'' then Inr (JDict [(''id'', JStr ''42'')])
      else if s = ''{"id": null}'' then Inr (JDict [(''id'', JNull)])
      else if s = ''{"id": "x"}'' then Inr (JDict [(''id'', JStr ''x'')])
      else if s = ''{}'' then Inr (JDict [])
      else Inl ValueError)\<close>

definition example_int_of_str :: "string \<Rightarrow> int option" where
  "example_int_of_str s = (if s = ''42'' then Some 42 else None)"

definition alice :: remote_user where
  "alice = \<lparr>ru_id = 7, ru_name = Some ''Alice'', ru_email = Some ''alice@example.org'',
            ru_external_id = None, ru_created_at = 1\<rparr>"

definition bob :: remote_user where
  "bob = \<lparr>ru_id = 8, ru_name = Some ''Bob'', ru_email = Some ''bob@example.org'',
          ru_external_id = None, ru_created_at = 1\<rparr>"

definition remote_ticket_42 :: remote_ticket where
  "remote_ticket_42 =
     \<lparr>rt_id = 42, rt_requester = alice, rt_subject = Some ''Printer'',
      rt_description = Some ''It is on fire'', rt_url = None, rt_status = ''Open'',
      rt_custom_fields = None, rt_tags = None, rt_created_at = 2, rt_updated_at = Some 3\<rparr>"

definition example_env :: env where
  "example_env =
     \<lparr>json_loads = example_json_loads, int_of_str = example_int_of_str,
      message = (\<lambda>e. Some ''No JSON object could be decoded''),
      format_exc = (\<lambda>e. ''Traceback (most recent call last)''),
      client_tickets = (\<lambda>i. if i = 42 then Inr remote_ticket_42 else Inl APIException),
      client_tickets_comments = (\<lambda>i. Inr []),
      client_search_external_id = (\<lambda>i. if i = 5 then Inr [alice] else Inr []),
      client_search_email = (\<lambda>a. if a = ''bob@example.org'' then Inr [bob] else Inr []),
      get_local_user_for_external_id = (\<lambda>x. Inr None)\<rparr>"

definition empty_db :: db where
  "empty_db = \<lparr>zendesk_users = [], tickets = [], comments = [], events = []\<rparr>"

text \<open>Two comments of one ticket, and a ticket, for the diff.\<close>

definition comment_one :: comment where
  "comment_one = \<lparr>cm_id = 1, cm_zendesk_id = 101, cm_ticket = 1, cm_author = 1,
                  cm_body = Some ''first'', cm_public = True, cm_created_at = 10\<rparr>"

definition comment_two :: comment where
  "comment_two = \<lparr>cm_id = 2, cm_zendesk_id = 102, cm_ticket = 1, cm_author = 2,
                  cm_body = Some ''second'', cm_public = True, cm_created_at = 20\<rparr>"

definition local_ticket_42 :: ticket where
  "local_ticket_42 =
     \<lparr>tk_id = 1, tk_zendesk_id = 42, tk_requester = 1, tk_subject = Some ''Printer'',
      tk_description = Some ''It is on fire'', tk_url = None, tk_status = Open,
      tk_custom_fields = None, tk_tags = None, tk_created_at = 2, tk_updated_at = Some 3\<rparr>"

text \<open>
  Local accounts: one known remotely by its external id, one known only by the e-mail on
  file, one with no e-mail on file, and one whose verified address (but not its e-mail on
  file) is known remotely.
\<close>

definition account_by_external_id :: local_user where
  "account_by_external_id =
     \<lparr>lu_id = 5, lu_first_name = ''Alice'', lu_email = ''alice@example.org'',
      emailaddress_set = []\<rparr>"

definition account_by_email :: local_user where
  "account_by_email =
     \<lparr>lu_id = 6, lu_first_name = ''Bob'', lu_email = ''bob@example.org'',
      emailaddress_set = []\<rparr>"

definition account_unknown :: local_user where
  "account_unknown =
     \<lparr>lu_id = 9, lu_first_name = ''Carol'', lu_email = [], emailaddress_set = []\<rparr>"

definition account_verified_only :: local_user where
  "account_verified_only =
     \<lparr>lu_id = 10, lu_first_name = ''Bob'', lu_email = ''robert@example.org'',
      emailaddress_set = [(''bob@example.org'', True)]\<rparr>"

text \<open>
  The store after the first synchronisation of ticket 42 into the empty store, the event of
  the payload \<open>{"id": "42"}\<close>, the same event carrying the error of an earlier attempt, the
  context of the notification that first synchronisation sends, and a remote side that
  reports ticket 42 with a status outside the enumeration.
\<close>

definition local_alice :: zendesk_user where
  "local_alice = \<lparr>zu_id = 1, zu_zendesk_id = 7, zu_name = Some ''Alice'',
                  zu_email = Some ''alice@example.org'', zu_user = None, zu_created_at = 1\<rparr>"

definition db_synced :: db where
  "db_synced = \<lparr>zendesk_users = [local_alice], tickets = [local_ticket_42], comments = [],
                events = []\<rparr>"

definition event_42 :: event where
  \<open>event_42 = \<lparr>ev_id = 1, ev_raw_data = ''{"id": "42"}'', ev_remote_ticket_id = None,
               ev_error = None, ev_ticket = None\<rparr>\<close>

definition stale_event :: event where
  "stale_event = event_42\<lparr>ev_error := Some ''Traceback of an earlier attempt''\<rparr>"

definition context_created :: update_context where
  "context_created = \<lparr>pre_ticket = None, post_ticket = Some local_ticket_42,
                      pre_comments = [], post_comments = []\<rparr>"

definition archived_env :: env where
  "archived_env =
     example_env\<lparr>client_tickets := (\<lambda>i. Inr (remote_ticket_42\<lparr>rt_status := ''Archived''\<rparr>))\<rparr>"

text \<open>A second ticket, a store holding one comment under the first, and edited defaults.\<close>

definition local_ticket_43 :: ticket where
  "local_ticket_43 = local_ticket_42\<lparr>tk_id := 2, tk_zendesk_id := 43\<rparr>"

definition db_one_comment :: db where
  "db_one_comment =
     \<lparr>zendesk_users = [local_alice], tickets = [local_ticket_42, local_ticket_43],
      comments = [comment_one], events = []\<rparr>"

definition defaults_edited :: comment_defaults where
  "defaults_edited = \<lparr>cd_author = local_alice, cd_body = Some ''edited'', cd_public = False,
                      cd_created_at = 10\<rparr>"

text \<open>
  A remote side on which ticket 42 has two comments, by Alice and by Bob, and the store after
  its first synchronisation into the empty store.
\<close>

definition remote_comment_one :: remote_comment where
  "remote_comment_one = \<lparr>rc_id = 101, rc_author = alice, rc_body = Some ''first'',
                         rc_public = True, rc_created_at = 10\<rparr>"

definition remote_comment_two :: remote_comment where
  "remote_comment_two = \<lparr>rc_id = 102, rc_author = bob, rc_body = Some ''second'',
                         rc_public = True, rc_created_at = 20\<rparr>"

definition commented_env :: env where
  "commented_env =
     example_env\<lparr>client_tickets_comments := (\<lambda>i. Inr [remote_comment_one, remote_comment_two])\<rparr>"

definition local_bob :: zendesk_user where
  "local_bob = \<lparr>zu_id = 2, zu_zendesk_id = 8, zu_name = Some ''Bob'',
                zu_email = Some ''bob@example.org'', zu_user = None, zu_created_at = 1\<rparr>"

definition db_commented :: db where
  "db_commented = \<lparr>zendesk_users = [local_alice, local_bob], tickets = [local_ticket_42],
                   comments = [comment_one, comment_two], events = []\<rparr>"

text \<open>
  A store in which the remote comment id 101 sits under ticket 43, the same remote comment
  written by Bob, and a remote side on which that comment is the only one of a ticket.
\<close>

definition db_comment_elsewhere :: db where
  "db_comment_elsewhere =
     \<lparr>zendesk_users = [local_alice], tickets = [local_ticket_43],
      comments = [comment_one\<lparr>cm_ticket := 2\<rparr>], events = []\<rparr>"

definition remote_comment_by_bob :: remote_comment where
  "remote_comment_by_bob = remote_comment_one\<lparr>rc_author := bob\<rparr>"

definition clash_env :: env where
  "clash_env = example_env\<lparr>client_tickets_comments := (\<lambda>i. Inr [remote_comment_by_bob])\<rparr>"

section \<open>Properties of the diff\<close>

lemma updated_fields_loop_lookup:
  "updated_fields_loop ks pre_fields post_fields updates k =
     (if k \<in> set ks \<and> k \<notin> {''created_at'', ''updated_at''}
         \<and> dict_get pre_fields k \<noteq> dict_get post_fields k
      then Some (Change (dict_get pre_fields k) (dict_get post_fields k))
      else updates k)"
proof (induction ks arbitrary: updates k)
  case Nil
  then show ?case by simp
next
  case (Cons a ks)
  show ?case
    by (auto simp: Cons.IH)
qed

lemma dict_get_timestamps_only:
  "k \<notin> {''created_at'', ''updated_at''} \<Longrightarrow>
   dict_get (model_to_dict (t\<lparr>tk_created_at := a, tk_updated_at := b\<rparr>)) k
     = dict_get (model_to_dict t) k"
  by (simp add: dict_get_def model_to_dict_def)

text \<open>
  C4. \<open>get_new_comments\<close> returns the comments of \<open>post\<close> whose remote id occurs nowhere in
  \<open>pre\<close> when \<open>post\<close> is strictly longer than \<open>pre\<close>, and the empty list when \<open>post\<close> is as long
  as \<open>pre\<close> or shorter; for two comments with different remote ids, \<open>pre = [c1]\<close> and
  \<open>post = [c1, c2]\<close> give exactly \<open>[c2]\<close>.
\<close>

theorem get_new_comments_spec:
  "(length (pre_comments ctx) < length (post_comments ctx) \<longrightarrow>
      get_new_comments ctx =
        filter (\<lambda>c. cm_zendesk_id c \<notin> cm_zendesk_id ` set (pre_comments ctx)) (post_comments ctx))
   \<and> (length (post_comments ctx) \<le> length (pre_comments ctx) \<longrightarrow> get_new_comments ctx = [])
   \<and> (cm_zendesk_id c1 \<noteq> cm_zendesk_id c2 \<longrightarrow>
        get_new_comments (ctx\<lparr>pre_comments := [c1], post_comments := [c1, c2]\<rparr>) = [c2])"
  by (auto simp: get_new_comments_def Let_def intro: filter_cong)

theorem get_new_comments_spec_witness:
  "get_new_comments \<lparr>pre_ticket = None, post_ticket = None,
                      pre_comments = [comment_one], post_comments = [comment_one, comment_two]\<rparr>
     = [comment_two]
   \<and> get_new_comments \<lparr>pre_ticket = None, post_ticket = None,
                        pre_comments = [comment_one, comment_two],
                        post_comments = [comment_two, comment_one]\<rparr> = []"
  using get_new_comments_spec [of "\<lparr>pre_ticket = None, post_ticket = None,
                      pre_comments = [comment_one], post_comments = [comment_one, comment_two]\<rparr>"
                      comment_one comment_two]
    get_new_comments_spec [of "\<lparr>pre_ticket = None, post_ticket = None,
                      pre_comments = [comment_one, comment_two],
                      post_comments = [comment_two, comment_one]\<rparr>" comment_one comment_two]
  by (simp add: comment_one_def comment_two_def)

text \<open>
  C8. With both snapshots present, the updated-fields map has an entry for a key exactly
  when the key is a field of the Ticket other than \<open>created_at\<close> and \<open>updated_at\<close> and the two
  snapshots differ on it, and the entry is the pair of the old and the new value; the map is
  empty when either snapshot is absent, and when the snapshots differ in the two timestamps
  only.
\<close>

theorem get_updated_fields_spec:
  "(pre_ticket ctx = Some pre \<and> post_ticket ctx = Some post \<longrightarrow>
      get_updated_fields ctx k =
        (if k \<in> fst ` set (model_to_dict pre) \<and> k \<notin> {''created_at'', ''updated_at''}
            \<and> dict_get (model_to_dict pre) k \<noteq> dict_get (model_to_dict post) k
         then Some (Change (dict_get (model_to_dict pre) k) (dict_get (model_to_dict post) k))
         else None))
   \<and> (pre_ticket ctx = None \<or> post_ticket ctx = None \<longrightarrow> get_updated_fields ctx = Map.empty)
   \<and> (pre_ticket ctx = Some pre
        \<and> post_ticket ctx = Some (pre\<lparr>tk_created_at := a, tk_updated_at := b\<rparr>) \<longrightarrow>
        get_updated_fields ctx = Map.empty)"
proof (intro conjI impI)
  assume "pre_ticket ctx = Some pre \<and> post_ticket ctx = Some post"
  then show "get_updated_fields ctx k =
        (if k \<in> fst ` set (model_to_dict pre) \<and> k \<notin> {''created_at'', ''updated_at''}
            \<and> dict_get (model_to_dict pre) k \<noteq> dict_get (model_to_dict post) k
         then Some (Change (dict_get (model_to_dict pre) k) (dict_get (model_to_dict post) k))
         else None)"
    by (simp add: get_updated_fields_def Let_def updated_fields_loop_lookup)
next
  assume "pre_ticket ctx = None \<or> post_ticket ctx = None"
  then show "get_updated_fields ctx = Map.empty"
    by (auto simp: get_updated_fields_def split: option.splits)
next
  assume h: "pre_ticket ctx = Some pre
        \<and> post_ticket ctx = Some (pre\<lparr>tk_created_at := a, tk_updated_at := b\<rparr>)"
  show "get_updated_fields ctx = Map.empty"
  proof
    fix k
    show "get_updated_fields ctx k = None"
    proof (cases "k \<in> {''created_at'', ''updated_at''}")
      case True
      then show ?thesis
        using h by (simp add: get_updated_fields_def Let_def updated_fields_loop_lookup)
    next
      case False
      then have "dict_get (model_to_dict (pre\<lparr>tk_created_at := a, tk_updated_at := b\<rparr>)) k
                   = dict_get (model_to_dict pre) k"
        by (rule dict_get_timestamps_only)
      then show ?thesis
        using h by (simp add: get_updated_fields_def Let_def updated_fields_loop_lookup)
    qed
  qed
qed

theorem get_updated_fields_spec_witness:
  "get_updated_fields \<lparr>pre_ticket = Some local_ticket_42,
         post_ticket = Some (local_ticket_42\<lparr>tk_status := Solved\<rparr>),
         pre_comments = [], post_comments = []\<rparr> ''status''
     = Some (Change (VStatus Open) (VStatus Solved))
   \<and> get_updated_fields \<lparr>pre_ticket = None, post_ticket = Some local_ticket_42,
         pre_comments = [], post_comments = []\<rparr> = Map.empty
   \<and> get_updated_fields \<lparr>pre_ticket = Some local_ticket_42,
         post_ticket = Some (local_ticket_42\<lparr>tk_created_at := 5, tk_updated_at := Some 6\<rparr>),
         pre_comments = [], post_comments = []\<rparr> = Map.empty"
  using get_updated_fields_spec [where ctx = "\<lparr>pre_ticket = Some local_ticket_42,
         post_ticket = Some (local_ticket_42\<lparr>tk_status := Solved\<rparr>),
         pre_comments = [], post_comments = []\<rparr>" and pre = local_ticket_42
         and post = "local_ticket_42\<lparr>tk_status := Solved\<rparr>" and k = "''status''"]
    get_updated_fields_spec [where ctx = "\<lparr>pre_ticket = None, post_ticket = Some local_ticket_42,
         pre_comments = [], post_comments = []\<rparr>"]
    get_updated_fields_spec [where ctx = "\<lparr>pre_ticket = Some local_ticket_42,
         post_ticket = Some (local_ticket_42\<lparr>tk_created_at := 5, tk_updated_at := Some 6\<rparr>),
         pre_comments = [], post_comments = []\<rparr>" and pre = local_ticket_42
         and a = 5 and b = "Some 6"]
  by (simp add: local_ticket_42_def model_to_dict_def dict_get_def)

section \<open>Properties of the Event Store\<close>

lemma fold_max_ge: "a \<le> fold max pks (a::nat) \<and> (\<forall>x \<in> set pks. x \<le> fold max pks a)"
proof (induction pks arbitrary: a)
  case Nil
  then show ?case by simp
next
  case (Cons p pks)
  from Cons.IH [of "max p a"] show ?case by auto
qed

lemma next_pk_fresh: "next_pk pks \<notin> set pks"
  using fold_max_ge [of 0 pks] by (auto simp: next_pk_def)

lemma next_pk_fresh_row: "r \<in> set rows \<Longrightarrow> pk r \<noteq> next_pk (map pk rows)"
  using next_pk_fresh [of "map pk rows"] by force

text \<open>
  Whatever the payload, the store afterwards holds one more Event row, carrying the raw
  payload verbatim and nothing else: the row is written before the payload is decoded.
\<close>

lemma store_event_persists_first:
  "events (snd (store_event env data db)) =
     events db @ [\<lparr>ev_id = next_pk (map ev_id (events db)), ev_raw_data = data,
                   ev_remote_ticket_id = None, ev_error = None, ev_ticket = None\<rparr>]"
proof -
  let ?event = "\<lparr>ev_id = next_pk (map ev_id (events db)), ev_raw_data = data,
                   ev_remote_ticket_id = None, ev_error = None, ev_ticket = None\<rparr>"
  have "snd (store_event env data db) = Event_save ?event (db\<lparr>events := events db @ [?event]\<rparr>)"
    by (simp add: store_event_def Event_create_def Event_set_json_def Let_def
          split: sum.splits option.splits)
  moreover have "map (\<lambda>r. if ev_id r = ev_id ?event then ?event else r) (events db) = events db"
    by (intro map_idI) (simp add: next_pk_fresh_row)
  ultimately show ?thesis
    by (simp add: Event_save_def)
qed

text \<open>
  A decoded object without an \<open>id\<close> key, or whose \<open>id\<close> is a string that \<open>int\<close> rejects, is
  answered with the \<open>ValidationError\<close> of the missing ticket id.
\<close>

lemma store_event_id_missing_or_not_a_number:
  "json_loads env data = Inr (JDict kvs) \<Longrightarrow>
   map_of kvs ''id'' = None \<or> (\<exists>s. map_of kvs ''id'' = Some (JStr s) \<and> int_of_str env s = None) \<Longrightarrow>
   fst (store_event env data db) = Inl (ValidationError ''`id` not found in data'')"
  by (auto simp: store_event_def Let_def subscript_id_def py_int_def split: prod.splits)

text \<open>No call of \<open>store_event\<close> returns an event.\<close>

lemma store_event_never_returns: "fst (store_event env data db) \<noteq> Inr event"
  by (simp add: store_event_def Event_set_json_def Let_def
        split: prod.splits sum.splits option.splits)

text \<open>
  C1. On the well-formed payload \<open>{"id": "42"}\<close>, whose \<open>id\<close> parses to 42, \<open>store_event\<close>
  does not return an Event with parsed ticket id 42: the assignment to the read-only
  property \<open>event.json\<close> raises \<open>AttributeError\<close>, and the row left in the store has no
  parsed ticket id.
\<close>

theorem store_event_valid_payload_raises:
  \<open>store_event example_env ''{"id": "42"}'' empty_db =
     (Inl AttributeError,
      empty_db\<lparr>events := [\<lparr>ev_id = 1, ev_raw_data = ''{"id": "42"}'',
                             ev_remote_ticket_id = None, ev_error = None,
                             ev_ticket = None\<rparr>]\<rparr>)\<close>
  by code_simp

text \<open>
  C7. On the payload \<open>{"id": null}\<close>, whose \<open>id\<close> does not parse to an integer, the raw
  payload is stored, but what leaves \<open>store_event\<close> is the \<open>TypeError\<close> of \<open>int(None)\<close>, which
  neither \<open>except\<close> clause catches, and not the \<open>ValidationError\<close> of the missing ticket id.
\<close>

theorem store_event_null_id_raises_type_error:
  \<open>store_event example_env ''{"id": null}'' empty_db =
     (Inl TypeError,
      empty_db\<lparr>events := [\<lparr>ev_id = 1, ev_raw_data = ''{"id": null}'',
                             ev_remote_ticket_id = None, ev_error = None,
                             ev_ticket = None\<rparr>]\<rparr>)\<close>
  by code_simp

section \<open>Properties of the resolution of a local account\<close>

text \<open>
  C9, as the code has it. The resolution has three tiers, in order: a match by external id
  returns the first match with the flag true; otherwise, when the e-mail on file is not
  empty, a match by that string returns the first match with the flag false; otherwise
  no identity is returned, with the flag false. The verified addresses of the account
  play no part in the result.
\<close>

theorem get_remote_zd_user_tiers:
  "(client_search_external_id env (lu_id u) = Inr (r # rs) \<longrightarrow>
      get_remote_zd_user_for_local_user env u = Inr (Some r, True))
   \<and> (client_search_external_id env (lu_id u) = Inr [] \<and> lu_email u \<noteq> []
        \<and> client_search_email env (lu_email u) = Inr (r # rs) \<longrightarrow>
      get_remote_zd_user_for_local_user env u = Inr (Some r, False))
   \<and> (client_search_external_id env (lu_id u) = Inr []
        \<and> (lu_email u = [] \<or> client_search_email env (lu_email u) = Inr []) \<longrightarrow>
      get_remote_zd_user_for_local_user env u = Inr (None, False))
   \<and> get_remote_zd_user_for_local_user env (u\<lparr>emailaddress_set := addresses\<rparr>)
       = get_remote_zd_user_for_local_user env u"
  by (auto simp: get_remote_zd_user_for_local_user_def get_local_user_external_id_def
        split: sum.splits list.splits)

theorem get_remote_zd_user_tiers_witness:
  "get_remote_zd_user_for_local_user example_env account_by_external_id = Inr (Some alice, True)
   \<and> get_remote_zd_user_for_local_user example_env account_by_email = Inr (Some bob, False)
   \<and> get_remote_zd_user_for_local_user example_env account_unknown = Inr (None, False)"
  using get_remote_zd_user_tiers [where env = example_env and u = account_by_external_id
          and r = alice and rs = "[]"]
    get_remote_zd_user_tiers [where env = example_env and u = account_by_email
          and r = bob and rs = "[]"]
    get_remote_zd_user_tiers [where env = example_env and u = account_unknown]
  by (simp add: example_env_def account_by_external_id_def account_by_email_def
        account_unknown_def)

text \<open>
  An account whose verified address is known to the remote side, but whose external id
  and e-mail on file are not, is reported as not found: there is no tier for verified
  addresses.
\<close>

theorem verified_address_not_consulted:
  "(''bob@example.org'', True) \<in> set (emailaddress_set account_verified_only)
   \<and> client_search_email example_env ''bob@example.org'' = Inr [bob]
   \<and> get_remote_zd_user_for_local_user example_env account_verified_only = Inr (None, False)"
  by (simp add: get_remote_zd_user_for_local_user_def get_local_user_external_id_def
        example_env_def account_verified_only_def)

section \<open>What each operation leaves untouched\<close>

lemma ZendeskUser_update_or_create_frame:
  "ZendeskUser_update_or_create z d db = (res, db') \<Longrightarrow>
   tickets db' = tickets db \<and> comments db' = comments db \<and> events db' = events db"
  by (auto simp: ZendeskUser_update_or_create_def Let_def split: list.splits)

lemma Ticket_update_or_create_frame:
  "Ticket_update_or_create z d db = (res, db') \<Longrightarrow>
   zendesk_users db' = zendesk_users db \<and> comments db' = comments db \<and> events db' = events db"
  by (auto simp: Ticket_update_or_create_def Let_def split: list.splits option.splits)

lemma Comment_update_or_create_frame:
  "Comment_update_or_create z t d db = (res, db') \<Longrightarrow>
   zendesk_users db' = zendesk_users db \<and> tickets db' = tickets db \<and> events db' = events db"
  by (auto simp: Comment_update_or_create_def Let_def split: list.splits if_splits)

lemma update_or_create_local_zd_user_frame:
  "update_or_create_local_zd_user_for_remote_zd_user env ru db = (res, db') \<Longrightarrow>
   tickets db' = tickets db \<and> comments db' = comments db \<and> events db' = events db"
  by (auto simp: update_or_create_local_zd_user_for_remote_zd_user_def
        split: sum.splits prod.splits dest: ZendeskUser_update_or_create_frame)

lemma comment_author_frame:
  "comment_author env um ru db = (res, db') \<Longrightarrow>
   tickets db' = tickets db \<and> comments db' = comments db \<and> events db' = events db"
  by (auto simp: comment_author_def split: option.splits sum.splits prod.splits
        dest: update_or_create_local_zd_user_frame)

lemma sync_comments_loop_frame:
  "sync_comments_loop env t rcs um acc db = (res, db') \<Longrightarrow>
   tickets db' = tickets db \<and> events db' = events db"
proof (induction rcs arbitrary: um acc db)
  case Nil
  then show ?case by simp
next
  case (Cons rc rcs)
  then show ?case
    by (auto split: sum.splits prod.splits
          dest!: comment_author_frame Comment_update_or_create_frame)
qed

lemma sync_comments_frame:
  "sync_comments env rt t u db = (res, db') \<Longrightarrow>
   tickets db' = tickets db \<and> events db' = events db"
  by (auto simp: sync_comments_def split: sum.splits prod.splits dest: sync_comments_loop_frame)

lemma sync_ticket_events:
  "sync_ticket env rt db = (res, db') \<Longrightarrow> events db' = events db"
  by (auto simp: sync_ticket_def split: sum.splits prod.splits
        dest!: update_or_create_local_zd_user_frame Ticket_update_or_create_frame sync_comments_frame)

lemma sync_ticket_id_events:
  "sync_ticket_id env i db = (res, db') \<Longrightarrow> events db' = events db"
  by (auto simp: sync_ticket_id_def split: sum.splits dest: sync_ticket_events)

lemma process_event_events:
  "process_event env event db = (res, db') \<Longrightarrow> events db' = events db"
  by (auto simp: process_event_def Let_def split: sum.splits prod.splits if_splits
        dest: sync_ticket_id_events)

section \<open>Properties of the synchronisation and of the pipeline\<close>

lemma filter_singletonD: "filter P xs = [x] \<Longrightarrow> x \<in> set xs \<and> P x"
proof -
  assume a: "filter P xs = [x]"
  have "x \<in> set (filter P xs)" by (simp add: a)
  then show ?thesis by simp
qed

lemma filter_empty_iff: "filter P xs = [] \<longleftrightarrow> (\<forall>x \<in> set xs. \<not> P x)"
  by (simp add: filter_empty_conv)

lemma Ticket_update_or_create_result:
  assumes "Ticket_update_or_create z d db = (Inr (t, c), db')"
  shows "tk_zendesk_id t = z \<and> t \<in> set (tickets db') \<and> td_status d = Some (tk_status t)
         \<and> (c \<longleftrightarrow> (\<forall>r \<in> set (tickets db). tk_zendesk_id r \<noteq> z))"
proof (cases "filter (\<lambda>r. tk_zendesk_id r = z) (tickets db)")
  case Nil
  then show ?thesis
    using assms
    by (auto simp: Ticket_update_or_create_def Let_def filter_empty_iff split: option.splits)
next
  case (Cons obj rest)
  show ?thesis
  proof (cases rest)
    case Nil
    with Cons have f: "filter (\<lambda>r. tk_zendesk_id r = z) (tickets db) = [obj]" by simp
    from filter_singletonD [OF f] have "obj \<in> set (tickets db)" "tk_zendesk_id obj = z" by auto
    then show ?thesis
      using assms f
      by (auto simp: Ticket_update_or_create_def Let_def image_iff split: option.splits)
  next
    case (Cons a list)
    then show ?thesis
      using assms \<open>filter (\<lambda>r. tk_zendesk_id r = z) (tickets db) = obj # rest\<close>
      by (simp add: Ticket_update_or_create_def)
  qed
qed

lemma sync_ticket_result:
  assumes "sync_ticket env rt db = (Inr (t, c), db')"
  shows "tk_zendesk_id t = rt_id rt \<and> t \<in> set (tickets db')
         \<and> states_by_id (lower (rt_status rt)) = Some (tk_status t)
         \<and> (c \<longleftrightarrow> (\<forall>r \<in> set (tickets db). tk_zendesk_id r \<noteq> rt_id rt))"
  using assms
  by (auto simp: sync_ticket_def split: sum.splits prod.splits
        dest!: update_or_create_local_zd_user_frame Ticket_update_or_create_result sync_comments_frame)

text \<open>
  C3. When the ticket id of the event is read and the synchronisation returns, the pipeline
  sends exactly one notification: \<open>ticket_created\<close> when the synchronisation reports the
  Ticket row as created (which is the case exactly when no row with that remote id existed
  before) and the ticket has no comment afterwards, and otherwise \<open>ticket_updated\<close> carrying
  the diff \<open>get_updates\<close> computes from the context. Every \<open>process_event\<close> that returns has
  sent exactly one notification.
\<close>

theorem process_event_sends_exactly_one:
  "(event_ticket_id env event = Inr ticket_id
      \<and> sync_ticket_id env ticket_id db = (Inr (post, created), db') \<longrightarrow>
      (let pre = Ticket_filter_first ticket_id db;
           ctx = \<lparr>pre_ticket = pre, post_ticket = Some post,
                  pre_comments = (case pre of None \<Rightarrow> [] | Some t \<Rightarrow> ticket_comments_all t db),
                  post_comments = ticket_comments_all post db'\<rparr>
       in process_event env event db =
            (Inr [if created \<and> ticket_comments_all post db' = []
                  then Ticket_created post ctx
                  else Ticket_updated post (get_updates ctx) ctx], db')
          \<and> post \<in> set (tickets db')
          \<and> (created \<longleftrightarrow> (\<forall>r \<in> set (tickets db). tk_zendesk_id r \<noteq> tk_zendesk_id post))))
   \<and> (process_event env event db = (Inr sent, db'') \<longrightarrow> length sent = 1)"
proof (intro conjI impI)
  assume h: "event_ticket_id env event = Inr ticket_id
      \<and> sync_ticket_id env ticket_id db = (Inr (post, created), db')"
  then obtain rt where rt: "client_tickets env ticket_id = Inr rt"
    "sync_ticket env rt db = (Inr (post, created), db')"
    by (auto simp: sync_ticket_id_def split: sum.splits)
  from sync_ticket_result [OF rt(2)]
  have "post \<in> set (tickets db')"
    "created \<longleftrightarrow> (\<forall>r \<in> set (tickets db). tk_zendesk_id r \<noteq> tk_zendesk_id post)"
    by auto
  then show "let pre = Ticket_filter_first ticket_id db;
           ctx = \<lparr>pre_ticket = pre, post_ticket = Some post,
                  pre_comments = (case pre of None \<Rightarrow> [] | Some t \<Rightarrow> ticket_comments_all t db),
                  post_comments = ticket_comments_all post db'\<rparr>
       in process_event env event db =
            (Inr [if created \<and> ticket_comments_all post db' = []
                  then Ticket_created post ctx
                  else Ticket_updated post (get_updates ctx) ctx], db')
          \<and> post \<in> set (tickets db')
          \<and> (created \<longleftrightarrow> (\<forall>r \<in> set (tickets db). tk_zendesk_id r \<noteq> tk_zendesk_id post))"
    using h by (simp add: process_event_def Let_def)
next
  assume "process_event env event db = (Inr sent, db'')"
  then show "length sent = 1"
    by (auto simp: process_event_def Let_def split: sum.splits prod.splits if_splits)
qed

theorem process_event_sends_exactly_one_witness:
  "process_event example_env event_42 empty_db =
     (Inr [Ticket_created local_ticket_42 context_created], db_synced)
   \<and> tk_zendesk_id local_ticket_42 = 42 \<and> post_comments context_created = []
   \<and> length [Ticket_created local_ticket_42 context_created] = 1"
proof -
  have h1: "event_ticket_id example_env event_42 = Inr 42" by code_simp
  have h2: "sync_ticket_id example_env 42 empty_db = (Inr (local_ticket_42, True), db_synced)"
    by code_simp
  from h1 h2 process_event_sends_exactly_one [where env = example_env and event = event_42
      and ticket_id = 42 and db = empty_db and post = local_ticket_42 and created = True
      and db' = db_synced and sent = "[Ticket_created local_ticket_42 context_created]"
      and db'' = db_synced]
  show ?thesis
    by (simp add: Let_def Ticket_filter_first_def ticket_comments_all_def empty_db_def
          db_synced_def context_created_def local_ticket_42_def)
qed

text \<open>
  C2, as the code has it. When processing an event that is a row of the Event table
  raises, the store is the one from before the attempt except that the formatted failure
  is written into the \<open>error\<close> column of that row, and the same exception is re-raised.
  When processing returns, its writes are kept, and the \<open>error\<close> column of every Event row
  is as it was before.
\<close>

theorem process_event_and_record_errors_spec:
  "(process_event env event db = (Inl e, db1) \<and> (\<exists>r \<in> set (events db). ev_id r = ev_id event) \<longrightarrow>
      process_event_and_record_errors env event db =
        (Inl e, db\<lparr>events :=
                     map (\<lambda>r. if ev_id r = ev_id event
                              then r\<lparr>ev_error := Some (format_exc env e)\<rparr> else r)
                       (events db)\<rparr>))
   \<and> (process_event env event db = (Inr sent, db1) \<longrightarrow>
        process_event_and_record_errors env event db = (Inr sent, db1)
        \<and> map ev_error (events db1) = map ev_error (events db))"
  by (auto simp: process_event_and_record_errors_def Event_save_error_def
        dest: process_event_events)

theorem process_event_and_record_errors_spec_witness:
  "process_event archived_env event_42 (empty_db\<lparr>events := [event_42]\<rparr>) =
     (Inl IntegrityError, \<lparr>zendesk_users = [local_alice], tickets = [], comments = [],
                           events = [event_42]\<rparr>)
   \<and> process_event_and_record_errors archived_env event_42 (empty_db\<lparr>events := [event_42]\<rparr>) =
     (Inl IntegrityError,
      empty_db\<lparr>events := [event_42\<lparr>ev_error := Some ''Traceback (most recent call last)''\<rparr>]\<rparr>)
   \<and> process_event_and_record_errors example_env event_42 (empty_db\<lparr>events := [event_42]\<rparr>) =
     (Inr [Ticket_created local_ticket_42 context_created], db_synced\<lparr>events := [event_42]\<rparr>)"
proof -
  have "event_ticket_id archived_env event_42 = Inr 42" by code_simp
  moreover have "sync_ticket_id archived_env 42 (empty_db\<lparr>events := [event_42]\<rparr>) =
     (Inl IntegrityError, \<lparr>zendesk_users = [local_alice], tickets = [], comments = [],
                           events = [event_42]\<rparr>)"
    by code_simp
  ultimately have h1: "process_event archived_env event_42 (empty_db\<lparr>events := [event_42]\<rparr>) =
     (Inl IntegrityError, \<lparr>zendesk_users = [local_alice], tickets = [], comments = [],
                           events = [event_42]\<rparr>)"
    by (simp add: process_event_def)
  have "event_ticket_id example_env event_42 = Inr 42" by code_simp
  moreover have "sync_ticket_id example_env 42 (empty_db\<lparr>events := [event_42]\<rparr>) =
              (Inr (local_ticket_42, True), db_synced\<lparr>events := [event_42]\<rparr>)"
    by code_simp
  moreover have "Ticket_filter_first 42 (empty_db\<lparr>events := [event_42]\<rparr>) = None"
    by code_simp
  moreover have "ticket_comments_all local_ticket_42 (db_synced\<lparr>events := [event_42]\<rparr>) = []"
    by code_simp
  ultimately have h2: "process_event example_env event_42 (empty_db\<lparr>events := [event_42]\<rparr>) =
     (Inr [Ticket_created local_ticket_42 context_created], db_synced\<lparr>events := [event_42]\<rparr>)"
    by (simp add: process_event_def context_created_def)
  from h1 process_event_and_record_errors_spec [where env = archived_env and event = event_42
      and db = "empty_db\<lparr>events := [event_42]\<rparr>" and e = IntegrityError
      and ?db1.0 = "\<lparr>zendesk_users = [local_alice], tickets = [], comments = [],
                           events = [event_42]\<rparr>"]
  have a: "process_event_and_record_errors archived_env event_42 (empty_db\<lparr>events := [event_42]\<rparr>) =
     (Inl IntegrityError,
      empty_db\<lparr>events := [event_42\<lparr>ev_error := Some ''Traceback (most recent call last)''\<rparr>]\<rparr>)"
    by (simp add: empty_db_def archived_env_def example_env_def)
  from h2 process_event_and_record_errors_spec [where env = example_env and event = event_42
      and db = "empty_db\<lparr>events := [event_42]\<rparr>"
      and sent = "[Ticket_created local_ticket_42 context_created]"
      and ?db1.0 = "db_synced\<lparr>events := [event_42]\<rparr>"]
  have b: "process_event_and_record_errors example_env event_42 (empty_db\<lparr>events := [event_42]\<rparr>) =
     (Inr [Ticket_created local_ticket_42 context_created], db_synced\<lparr>events := [event_42]\<rparr>)"
    by simp
  from h1 a b show ?thesis by simp
qed

text \<open>
  A second attempt on an event that carries the error of an earlier attempt succeeds, and the
  Event row keeps that error and has no ticket link.
\<close>

theorem success_leaves_event_untouched:
  "process_event_and_record_errors example_env stale_event (empty_db\<lparr>events := [stale_event]\<rparr>) =
     (Inr [Ticket_created local_ticket_42 context_created], db_synced\<lparr>events := [stale_event]\<rparr>)
   \<and> ev_error stale_event = Some ''Traceback of an earlier attempt''
   \<and> ev_ticket stale_event = None"
proof -
  have h1: "event_ticket_id example_env stale_event = Inr 42" by code_simp
  have h2: "sync_ticket_id example_env 42 (empty_db\<lparr>events := [stale_event]\<rparr>) =
              (Inr (local_ticket_42, True), db_synced\<lparr>events := [stale_event]\<rparr>)"
    by code_simp
  have h3: "Ticket_filter_first 42 (empty_db\<lparr>events := [stale_event]\<rparr>) = None" by code_simp
  have h4: "ticket_comments_all local_ticket_42 (db_synced\<lparr>events := [stale_event]\<rparr>) = []"
    by code_simp
  have "process_event_and_record_errors example_env stale_event
          (empty_db\<lparr>events := [stale_event]\<rparr>) =
     (Inr [Ticket_created local_ticket_42 context_created], db_synced\<lparr>events := [stale_event]\<rparr>)"
    by (simp add: process_event_and_record_errors_def process_event_def h1 h2 h3 h4
          context_created_def)
  then show ?thesis
    by (simp add: stale_event_def event_42_def)
qed

text \<open>
  C6, as the code has it. A synchronisation that returns has stored the status that
  \<open>Ticket.states.by_id\<close> holds for the lower-cased remote status, and the dictionary has
  exactly the six ids as keys. For a lower-cased remote status that is not one of them the
  code raises no error of its own: the look-up yields \<open>None\<close>, and the synchronisation ends
  with whatever the upsert of the requester raises, or else with the error of the Ticket
  upsert, which is the \<open>IntegrityError\<close> of the NOT NULL status column when at most one
  Ticket row has that remote id and \<open>MultipleObjectsReturned\<close> otherwise. In each case the
  Ticket table is as before.
\<close>

theorem sync_ticket_status:
  "(sync_ticket env rt db = (Inr (t, created), db') \<longrightarrow>
      states_by_id (lower (rt_status rt)) = Some (tk_status t) \<and> t \<in> set (tickets db'))
   \<and> (states_by_id (lower (rt_status rt)) = None
        \<and> update_or_create_local_zd_user_for_remote_zd_user env (rt_requester rt) db
            = (Inl e, db1) \<longrightarrow>
        sync_ticket env rt db = (Inl e, db1) \<and> tickets db1 = tickets db)
   \<and> (states_by_id (lower (rt_status rt)) = None
        \<and> update_or_create_local_zd_user_for_remote_zd_user env (rt_requester rt) db
            = (Inr u, db1) \<longrightarrow>
        sync_ticket env rt db =
          (Inl (if length (filter (\<lambda>r. tk_zendesk_id r = rt_id rt) (tickets db)) \<le> 1
                then IntegrityError else MultipleObjectsReturned), db1)
        \<and> tickets db1 = tickets db)
   \<and> (states_by_id s = None \<longleftrightarrow>
        s \<notin> {''new'', ''open'', ''pending'', ''hold'', ''solved'', ''closed''})
   \<and> map states_by_id [''new'', ''open'', ''pending'', ''hold'', ''solved'', ''closed'']
       = [Some New, Some Open, Some Pending, Some Hold, Some Solved, Some Closed]"
proof -
  have a: "states_by_id (lower (rt_status rt)) = Some (tk_status t) \<and> t \<in> set (tickets db')"
    if "sync_ticket env rt db = (Inr (t, created), db')"
    using sync_ticket_result [OF that] by simp
  have b: "sync_ticket env rt db = (Inl e, db1) \<and> tickets db1 = tickets db"
    if h: "states_by_id (lower (rt_status rt)) = None
        \<and> update_or_create_local_zd_user_for_remote_zd_user env (rt_requester rt) db
            = (Inl e, db1)"
  proof -
    from h update_or_create_local_zd_user_frame [of env "rt_requester rt" db "Inl e" db1]
    have "tickets db1 = tickets db" by simp
    then show ?thesis using h by (simp add: sync_ticket_def)
  qed
  have c: "sync_ticket env rt db =
          (Inl (if length (filter (\<lambda>r. tk_zendesk_id r = rt_id rt) (tickets db)) \<le> 1
                then IntegrityError else MultipleObjectsReturned), db1)
        \<and> tickets db1 = tickets db"
    if h: "states_by_id (lower (rt_status rt)) = None
        \<and> update_or_create_local_zd_user_for_remote_zd_user env (rt_requester rt) db
            = (Inr u, db1)"
  proof -
    from h update_or_create_local_zd_user_frame [of env "rt_requester rt" db "Inr u" db1]
    have "tickets db1 = tickets db" by simp
    then show ?thesis
      using h by (auto simp: sync_ticket_def Ticket_update_or_create_def split: list.splits)
  qed
  have d: "states_by_id s = None \<longleftrightarrow>
        s \<notin> {''new'', ''open'', ''pending'', ''hold'', ''solved'', ''closed''}"
    by (simp add: states_by_id_def)
  have e: "map states_by_id [''new'', ''open'', ''pending'', ''hold'', ''solved'', ''closed'']
       = [Some New, Some Open, Some Pending, Some Hold, Some Solved, Some Closed]"
    by (simp add: states_by_id_def)
  from a b c d e show ?thesis by blast
qed

theorem sync_ticket_status_witness:
  "sync_ticket example_env remote_ticket_42 empty_db = (Inr (local_ticket_42, True), db_synced)
   \<and> states_by_id (lower ''Open'') = Some Open
   \<and> states_by_id (lower ''Archived'') = None
   \<and> sync_ticket example_env (remote_ticket_42\<lparr>rt_status := ''Archived''\<rparr>) empty_db =
       (Inl IntegrityError, empty_db\<lparr>zendesk_users := [local_alice]\<rparr>)
   \<and> sync_ticket (example_env\<lparr>get_local_user_for_external_id := (\<lambda>x. Inl ValueError)\<rparr>)
        (remote_ticket_42\<lparr>rt_status := ''Archived''\<rparr>) empty_db = (Inl ValueError, empty_db)"
proof -
  have h1: "sync_ticket example_env remote_ticket_42 empty_db = (Inr (local_ticket_42, True), db_synced)"
    by code_simp
  have h2: "states_by_id (lower ''Archived'') = None" by code_simp
  have h3: "update_or_create_local_zd_user_for_remote_zd_user example_env alice empty_db =
              (Inr local_alice, empty_db\<lparr>zendesk_users := [local_alice]\<rparr>)" by code_simp
  have h4: "update_or_create_local_zd_user_for_remote_zd_user
              (example_env\<lparr>get_local_user_for_external_id := (\<lambda>x. Inl ValueError)\<rparr>)
              alice empty_db = (Inl ValueError, empty_db)"
    by (simp add: update_or_create_local_zd_user_for_remote_zd_user_def)
  from h1 sync_ticket_status [where env = example_env and rt = remote_ticket_42 and db = empty_db
      and t = local_ticket_42 and created = True and db' = db_synced]
  have a: "states_by_id (lower ''Open'') = Some Open"
    by (simp add: remote_ticket_42_def local_ticket_42_def)
  from h2 h3 sync_ticket_status [where env = example_env
      and rt = "remote_ticket_42\<lparr>rt_status := ''Archived''\<rparr>" and db = empty_db
      and u = local_alice and ?db1.0 = "empty_db\<lparr>zendesk_users := [local_alice]\<rparr>"]
  have b: "sync_ticket example_env (remote_ticket_42\<lparr>rt_status := ''Archived''\<rparr>) empty_db =
       (Inl IntegrityError, empty_db\<lparr>zendesk_users := [local_alice]\<rparr>)"
    by (simp add: remote_ticket_42_def empty_db_def)
  from h2 h4 sync_ticket_status
     [where env = "example_env\<lparr>get_local_user_for_external_id := (\<lambda>x. Inl ValueError)\<rparr>"
      and rt = "remote_ticket_42\<lparr>rt_status := ''Archived''\<rparr>" and db = empty_db
      and e = ValueError and ?db1.0 = empty_db]
  have c: "sync_ticket (example_env\<lparr>get_local_user_for_external_id := (\<lambda>x. Inl ValueError)\<rparr>)
        (remote_ticket_42\<lparr>rt_status := ''Archived''\<rparr>) empty_db = (Inl ValueError, empty_db)"
    by (simp add: remote_ticket_42_def)
  from h1 h2 a b c show ?thesis by simp
qed

text \<open>
  The error of a ticket with a status outside the enumeration does not name the status: it
  is the \<open>IntegrityError\<close> that a ticket with the valid status \<open>Open\<close> also ends in when one
  of its comments is already stored under another ticket.
\<close>

theorem unknown_status_error_is_generic:
  "states_by_id (lower (rt_status (remote_ticket_42\<lparr>rt_status := ''Archived''\<rparr>))) = None
   \<and> fst (sync_ticket example_env (remote_ticket_42\<lparr>rt_status := ''Archived''\<rparr>) empty_db)
       = Inl IntegrityError
   \<and> states_by_id (lower (rt_status remote_ticket_42)) = Some Open
   \<and> fst (sync_ticket commented_env remote_ticket_42 db_comment_elsewhere) = Inl IntegrityError"
  by code_simp

section \<open>Uniqueness of comments\<close>

text \<open>
  The three ways the upsert of a Comment ends: one match of the look-up by (remote comment
  id, ticket) is rewritten in place, a remote id stored under other tickets only is
  refused, and a remote id not stored at all gets a new row.
\<close>

lemma Comment_update_or_create_branches:
  "(filter (\<lambda>r. cm_zendesk_id r = z \<and> cm_ticket r = tk_id t) (comments db) = [obj] \<longrightarrow>
      (let obj' = obj\<lparr>cm_author := zu_id (cd_author d), cm_body := cd_body d,
                      cm_public := cd_public d, cm_created_at := cd_created_at d\<rparr>
       in Comment_update_or_create z t d db =
            (Inr (obj', False),
             db\<lparr>comments := map (\<lambda>r. if cm_id r = cm_id obj then obj' else r) (comments db)\<rparr>)
          \<and> cm_id obj' = cm_id obj \<and> cm_zendesk_id obj' = z \<and> cm_ticket obj' = tk_id t))
   \<and> ((\<exists>r \<in> set (comments db). cm_zendesk_id r = z)
        \<and> (\<forall>r \<in> set (comments db). cm_zendesk_id r = z \<longrightarrow> cm_ticket r \<noteq> tk_id t) \<longrightarrow>
        Comment_update_or_create z t d db = (Inl IntegrityError, db))
   \<and> ((\<forall>r \<in> set (comments db). cm_zendesk_id r \<noteq> z) \<longrightarrow>
        (\<exists>obj. Comment_update_or_create z t d db =
                  (Inr (obj, True), db\<lparr>comments := comments db @ [obj]\<rparr>)
               \<and> cm_zendesk_id obj = z \<and> cm_ticket obj = tk_id t))"
proof (intro conjI impI)
  assume f: "filter (\<lambda>r. cm_zendesk_id r = z \<and> cm_ticket r = tk_id t) (comments db) = [obj]"
  from filter_singletonD [OF f] have "cm_zendesk_id obj = z" "cm_ticket obj = tk_id t" by auto
  then show "let obj' = obj\<lparr>cm_author := zu_id (cd_author d), cm_body := cd_body d,
                      cm_public := cd_public d, cm_created_at := cd_created_at d\<rparr>
       in Comment_update_or_create z t d db =
            (Inr (obj', False),
             db\<lparr>comments := map (\<lambda>r. if cm_id r = cm_id obj then obj' else r) (comments db)\<rparr>)
          \<and> cm_id obj' = cm_id obj \<and> cm_zendesk_id obj' = z \<and> cm_ticket obj' = tk_id t"
    using f by (simp add: Comment_update_or_create_def Let_def)
next
  assume h: "(\<exists>r \<in> set (comments db). cm_zendesk_id r = z)
        \<and> (\<forall>r \<in> set (comments db). cm_zendesk_id r = z \<longrightarrow> cm_ticket r \<noteq> tk_id t)"
  then have "filter (\<lambda>r. cm_zendesk_id r = z \<and> cm_ticket r = tk_id t) (comments db) = []"
    by (auto simp: filter_empty_iff)
  then show "Comment_update_or_create z t d db = (Inl IntegrityError, db)"
    using h by (simp add: Comment_update_or_create_def)
next
  assume h: "\<forall>r \<in> set (comments db). cm_zendesk_id r \<noteq> z"
  then have "filter (\<lambda>r. cm_zendesk_id r = z \<and> cm_ticket r = tk_id t) (comments db) = []"
    by (auto simp: filter_empty_iff)
  then show "\<exists>obj. Comment_update_or_create z t d db =
                  (Inr (obj, True), db\<lparr>comments := comments db @ [obj]\<rparr>)
               \<and> cm_zendesk_id obj = z \<and> cm_ticket obj = tk_id t"
    using h by (simp add: Comment_update_or_create_def Let_def)
qed

text \<open>
  C10, as the code has it. In one step of \<open>sync_comments\<close> the author of the remote comment
  is resolved first; this writes nothing when the author is in \<open>user_map\<close>, and never touches
  the Comment or the Ticket table. The Comment is then looked up by the pair (remote comment
  id, ticket). When exactly one row matches, that row is rewritten in place, keeping its
  primary key, remote id and ticket, no row is added, and the loop goes on. When the remote id
  is stored under other tickets only, the step raises \<open>IntegrityError\<close> and the store is the
  one the resolution of the author left. When the remote id is not stored at all, one row is
  appended and the loop goes on.
\<close>

theorem sync_comments_loop_upsert:
  "comment_author env um (rc_author rc) db = (Inr (author, um'), db1) \<longrightarrow>
     comments db1 = comments db \<and> tickets db1 = tickets db
     \<and> (um (rc_author rc) \<noteq> None \<longrightarrow> db1 = db)
     \<and> (filter (\<lambda>r. cm_zendesk_id r = rc_id rc \<and> cm_ticket r = tk_id t) (comments db) = [obj] \<longrightarrow>
          (let obj' = obj\<lparr>cm_author := zu_id author, cm_body := rc_body rc,
                          cm_public := rc_public rc, cm_created_at := rc_created_at rc\<rparr>
           in sync_comments_loop env t (rc # rest) um acc db =
                sync_comments_loop env t rest um' (acc @ [obj'])
                  (db1\<lparr>comments :=
                        map (\<lambda>r. if cm_id r = cm_id obj then obj' else r) (comments db)\<rparr>)
              \<and> cm_id obj' = cm_id obj \<and> cm_zendesk_id obj' = rc_id rc
              \<and> cm_ticket obj' = tk_id t))
     \<and> ((\<exists>r \<in> set (comments db). cm_zendesk_id r = rc_id rc)
          \<and> (\<forall>r \<in> set (comments db). cm_zendesk_id r = rc_id rc \<longrightarrow> cm_ticket r \<noteq> tk_id t) \<longrightarrow>
          sync_comments_loop env t (rc # rest) um acc db = (Inl IntegrityError, db1))
     \<and> ((\<forall>r \<in> set (comments db). cm_zendesk_id r \<noteq> rc_id rc) \<longrightarrow>
          (let obj = \<lparr>cm_id = next_pk (map cm_id (comments db)), cm_zendesk_id = rc_id rc,
                      cm_ticket = tk_id t, cm_author = zu_id author, cm_body = rc_body rc,
                      cm_public = rc_public rc, cm_created_at = rc_created_at rc\<rparr>
           in sync_comments_loop env t (rc # rest) um acc db =
                sync_comments_loop env t rest um' (acc @ [obj])
                  (db1\<lparr>comments := comments db @ [obj]\<rparr>)))"
proof
  assume au: "comment_author env um (rc_author rc) db = (Inr (author, um'), db1)"
  let ?d = "\<lparr>cd_author = author, cd_body = rc_body rc, cd_public = rc_public rc,
             cd_created_at = rc_created_at rc\<rparr>"
  from comment_author_frame [OF au]
  have fr: "comments db1 = comments db" "tickets db1 = tickets db" by simp_all
  have same: "db1 = db" if "um (rc_author rc) \<noteq> None"
    using au that by (auto simp: comment_author_def)
  have upd: "let obj' = obj\<lparr>cm_author := zu_id author, cm_body := rc_body rc,
                          cm_public := rc_public rc, cm_created_at := rc_created_at rc\<rparr>
           in sync_comments_loop env t (rc # rest) um acc db =
                sync_comments_loop env t rest um' (acc @ [obj'])
                  (db1\<lparr>comments :=
                        map (\<lambda>r. if cm_id r = cm_id obj then obj' else r) (comments db)\<rparr>)
              \<and> cm_id obj' = cm_id obj \<and> cm_zendesk_id obj' = rc_id rc
              \<and> cm_ticket obj' = tk_id t"
    if f: "filter (\<lambda>r. cm_zendesk_id r = rc_id rc \<and> cm_ticket r = tk_id t) (comments db) = [obj]"
  proof -
    from f fr have "filter (\<lambda>r. cm_zendesk_id r = rc_id rc \<and> cm_ticket r = tk_id t)
                      (comments db1) = [obj]" by simp
    from Comment_update_or_create_branches [where z = "rc_id rc" and t = t and d = ?d and db = db1
        and obj = obj, THEN conjunct1, rule_format, OF this]
    show ?thesis using au fr by (simp add: Let_def)
  qed
  have clash: "sync_comments_loop env t (rc # rest) um acc db = (Inl IntegrityError, db1)"
    if h: "(\<exists>r \<in> set (comments db). cm_zendesk_id r = rc_id rc)
          \<and> (\<forall>r \<in> set (comments db). cm_zendesk_id r = rc_id rc \<longrightarrow> cm_ticket r \<noteq> tk_id t)"
  proof -
    from h fr have "(\<exists>r \<in> set (comments db1). cm_zendesk_id r = rc_id rc)
          \<and> (\<forall>r \<in> set (comments db1). cm_zendesk_id r = rc_id rc \<longrightarrow> cm_ticket r \<noteq> tk_id t)"
      by simp
    from Comment_update_or_create_branches [where z = "rc_id rc" and t = t and d = ?d and db = db1,
        THEN conjunct2, THEN conjunct1, rule_format, OF this]
    show ?thesis using au by simp
  qed
  have new: "let obj = \<lparr>cm_id = next_pk (map cm_id (comments db)), cm_zendesk_id = rc_id rc,
                      cm_ticket = tk_id t, cm_author = zu_id author, cm_body = rc_body rc,
                      cm_public = rc_public rc, cm_created_at = rc_created_at rc\<rparr>
           in sync_comments_loop env t (rc # rest) um acc db =
                sync_comments_loop env t rest um' (acc @ [obj])
                  (db1\<lparr>comments := comments db @ [obj]\<rparr>)"
    if h: "\<forall>r \<in> set (comments db). cm_zendesk_id r \<noteq> rc_id rc"
  proof -
    from h fr have n: "\<forall>r \<in> set (comments db1). cm_zendesk_id r \<noteq> rc_id rc" by simp
    then have "filter (\<lambda>r. cm_zendesk_id r = rc_id rc \<and> cm_ticket r = tk_id t) (comments db1) = []"
      by (auto simp: filter_empty_iff)
    with n have "Comment_update_or_create (rc_id rc) t ?d db1 =
       (let obj = \<lparr>cm_id = next_pk (map cm_id (comments db1)), cm_zendesk_id = rc_id rc,
                      cm_ticket = tk_id t, cm_author = zu_id author, cm_body = rc_body rc,
                      cm_public = rc_public rc, cm_created_at = rc_created_at rc\<rparr>
        in (Inr (obj, True), db1\<lparr>comments := comments db1 @ [obj]\<rparr>))"
      by (simp add: Comment_update_or_create_def Let_def)
    then show ?thesis using au fr by (simp add: Let_def)
  qed
  from fr same upd clash new
  show "comments db1 = comments db \<and> tickets db1 = tickets db
     \<and> (um (rc_author rc) \<noteq> None \<longrightarrow> db1 = db)
     \<and> (filter (\<lambda>r. cm_zendesk_id r = rc_id rc \<and> cm_ticket r = tk_id t) (comments db) = [obj] \<longrightarrow>
          (let obj' = obj\<lparr>cm_author := zu_id author, cm_body := rc_body rc,
                          cm_public := rc_public rc, cm_created_at := rc_created_at rc\<rparr>
           in sync_comments_loop env t (rc # rest) um acc db =
                sync_comments_loop env t rest um' (acc @ [obj'])
                  (db1\<lparr>comments :=
                        map (\<lambda>r. if cm_id r = cm_id obj then obj' else r) (comments db)\<rparr>)
              \<and> cm_id obj' = cm_id obj \<and> cm_zendesk_id obj' = rc_id rc
              \<and> cm_ticket obj' = tk_id t))
     \<and> ((\<exists>r \<in> set (comments db). cm_zendesk_id r = rc_id rc)
          \<and> (\<forall>r \<in> set (comments db). cm_zendesk_id r = rc_id rc \<longrightarrow> cm_ticket r \<noteq> tk_id t) \<longrightarrow>
          sync_comments_loop env t (rc # rest) um acc db = (Inl IntegrityError, db1))
     \<and> ((\<forall>r \<in> set (comments db). cm_zendesk_id r \<noteq> rc_id rc) \<longrightarrow>
          (let obj = \<lparr>cm_id = next_pk (map cm_id (comments db)), cm_zendesk_id = rc_id rc,
                      cm_ticket = tk_id t, cm_author = zu_id author, cm_body = rc_body rc,
                      cm_public = rc_public rc, cm_created_at = rc_created_at rc\<rparr>
           in sync_comments_loop env t (rc # rest) um acc db =
                sync_comments_loop env t rest um' (acc @ [obj])
                  (db1\<lparr>comments := comments db @ [obj]\<rparr>)))"
    by blast
qed

theorem sync_comments_loop_upsert_witness:
  "sync_comments_loop example_env local_ticket_42
      [remote_comment_one\<lparr>rc_body := Some ''edited''\<rparr>] [alice \<mapsto> local_alice] [] db_commented =
     (Inr [comment_one\<lparr>cm_body := Some ''edited''\<rparr>],
      db_commented\<lparr>comments := [comment_one\<lparr>cm_body := Some ''edited''\<rparr>, comment_two]\<rparr>)
   \<and> sync_comments_loop example_env local_ticket_43 [remote_comment_by_bob]
        [alice \<mapsto> local_alice] [] db_one_comment =
       (Inl IntegrityError, db_one_comment\<lparr>zendesk_users := [local_alice, local_bob]\<rparr>)
   \<and> sync_comments clash_env (remote_ticket_42\<lparr>rt_id := 43\<rparr>) local_ticket_43 local_alice
        db_one_comment =
       (Inl IntegrityError, db_one_comment\<lparr>zendesk_users := [local_alice, local_bob]\<rparr>)
   \<and> sync_comments_loop example_env local_ticket_43 [remote_comment_two]
        [alice \<mapsto> local_alice] [] db_one_comment =
       (Inr [comment_two\<lparr>cm_ticket := 2\<rparr>],
        db_one_comment\<lparr>zendesk_users := [local_alice, local_bob],
                       comments := [comment_one, comment_two\<lparr>cm_ticket := 2\<rparr>]\<rparr>)"
proof -
  have ne: "alice \<noteq> bob" by (simp add: alice_def bob_def)
  have bob_row: "update_or_create_local_zd_user_for_remote_zd_user example_env bob db_one_comment
                   = (Inr local_bob, db_one_comment\<lparr>zendesk_users := [local_alice, local_bob]\<rparr>)"
    by code_simp
  have au_a: "comment_author example_env [alice \<mapsto> local_alice]
                (rc_author (remote_comment_one\<lparr>rc_body := Some ''edited''\<rparr>)) db_commented
                = (Inr (local_alice, [alice \<mapsto> local_alice]), db_commented)"
    by (simp add: comment_author_def remote_comment_one_def)
  have au_b: "comment_author example_env [alice \<mapsto> local_alice]
                (rc_author remote_comment_by_bob) db_one_comment
                = (Inr (local_bob, [alice \<mapsto> local_alice, bob \<mapsto> local_bob]),
                   db_one_comment\<lparr>zendesk_users := [local_alice, local_bob]\<rparr>)"
    using ne by (simp add: comment_author_def remote_comment_by_bob_def bob_row)
  have au_c: "comment_author example_env [alice \<mapsto> local_alice]
                (rc_author remote_comment_two) db_one_comment
                = (Inr (local_bob, [alice \<mapsto> local_alice, bob \<mapsto> local_bob]),
                   db_one_comment\<lparr>zendesk_users := [local_alice, local_bob]\<rparr>)"
    using ne by (simp add: comment_author_def remote_comment_two_def bob_row)
  have a: "sync_comments_loop example_env local_ticket_42
      [remote_comment_one\<lparr>rc_body := Some ''edited''\<rparr>] [alice \<mapsto> local_alice] [] db_commented =
     (Inr [comment_one\<lparr>cm_body := Some ''edited''\<rparr>],
      db_commented\<lparr>comments := [comment_one\<lparr>cm_body := Some ''edited''\<rparr>, comment_two]\<rparr>)"
    using au_a sync_comments_loop_upsert [where env = example_env and um = "[alice \<mapsto> local_alice]"
        and rc = "remote_comment_one\<lparr>rc_body := Some ''edited''\<rparr>" and db = db_commented
        and author = local_alice and um' = "[alice \<mapsto> local_alice]" and ?db1.0 = db_commented
        and t = local_ticket_42 and obj = comment_one and rest = "[]" and acc = "[]"]
    by (simp add: db_commented_def comment_one_def comment_two_def local_ticket_42_def
          remote_comment_one_def local_alice_def Let_def)
  have b: "sync_comments_loop example_env local_ticket_43 [remote_comment_by_bob]
        [alice \<mapsto> local_alice] [] db_one_comment =
       (Inl IntegrityError, db_one_comment\<lparr>zendesk_users := [local_alice, local_bob]\<rparr>)"
    using au_b sync_comments_loop_upsert [where env = example_env and um = "[alice \<mapsto> local_alice]"
        and rc = remote_comment_by_bob and db = db_one_comment
        and author = local_bob and um' = "[alice \<mapsto> local_alice, bob \<mapsto> local_bob]"
        and ?db1.0 = "db_one_comment\<lparr>zendesk_users := [local_alice, local_bob]\<rparr>"
        and t = local_ticket_43 and rest = "[]" and acc = "[]"]
    by (simp add: db_one_comment_def comment_one_def local_ticket_42_def local_ticket_43_def
          remote_comment_by_bob_def remote_comment_one_def)
  have b': "sync_comments clash_env (remote_ticket_42\<lparr>rt_id := 43\<rparr>) local_ticket_43 local_alice
        db_one_comment =
       (Inl IntegrityError, db_one_comment\<lparr>zendesk_users := [local_alice, local_bob]\<rparr>)"
    by code_simp
  have c: "sync_comments_loop example_env local_ticket_43 [remote_comment_two]
        [alice \<mapsto> local_alice] [] db_one_comment =
       (Inr [comment_two\<lparr>cm_ticket := 2\<rparr>],
        db_one_comment\<lparr>zendesk_users := [local_alice, local_bob],
                       comments := [comment_one, comment_two\<lparr>cm_ticket := 2\<rparr>]\<rparr>)"
    using au_c sync_comments_loop_upsert [where env = example_env and um = "[alice \<mapsto> local_alice]"
        and rc = remote_comment_two and db = db_one_comment
        and author = local_bob and um' = "[alice \<mapsto> local_alice, bob \<mapsto> local_bob]"
        and ?db1.0 = "db_one_comment\<lparr>zendesk_users := [local_alice, local_bob]\<rparr>"
        and t = local_ticket_43 and rest = "[]" and acc = "[]"]
    by (simp add: db_one_comment_def comment_one_def comment_two_def local_ticket_42_def
          local_ticket_43_def remote_comment_two_def local_bob_def next_pk_def Let_def)
  from a b b' c show ?thesis by simp
qed

text \<open>
  The remote comment id of a comment stored under one ticket cannot be stored under another
  ticket: the upsert raises \<open>IntegrityError\<close>.
\<close>

theorem comment_id_unique_across_tickets:
  "tk_id local_ticket_42 \<noteq> tk_id local_ticket_43
   \<and> comment_one \<in> set (comments db_one_comment)
   \<and> cm_ticket comment_one = tk_id local_ticket_42
   \<and> Comment_update_or_create (cm_zendesk_id comment_one) local_ticket_43 defaults_edited
        db_one_comment = (Inl IntegrityError, db_one_comment)"
  by code_simp

section \<open>Idempotence of the synchronisation\<close>

lemma replace_by_pk:
  assumes "distinct (map pk rows)" and "obj \<in> set rows"
  shows "map (\<lambda>r. if pk r = pk obj then obj' else r) rows = replace_row obj obj' rows"
  unfolding replace_row_def
proof (rule map_cong [OF refl])
  fix r assume "r \<in> set rows"
  with assms have "pk r = pk obj \<longleftrightarrow> r = obj"
    by (auto simp: distinct_map dest: inj_onD)
  then show "(if pk r = pk obj then obj' else r) = (if r = obj then obj' else r)"
    by simp
qed

lemma map_pk_replace_row:
  "pk obj' = pk obj \<Longrightarrow> map pk (replace_row obj obj' rows) = map pk rows"
  unfolding replace_row_def by (induction rows) auto

lemma filter_replace_row_hit:
  "filter P rows = [obj] \<Longrightarrow> P obj' \<Longrightarrow> filter P (replace_row obj obj' rows) = [obj']"
  unfolding replace_row_def
proof (induction rows)
  case Nil
  then show ?case by simp
next
  case (Cons r rows)
  show ?case
  proof (cases "P r")
    case True
    with Cons.prems have r: "r = obj" and e: "filter P rows = []" by auto
    from e have "obj \<notin> set rows" using Cons.prems(1) True r
      by (auto simp: filter_empty_conv)
    then have "map (\<lambda>r. if r = obj then obj' else r) rows = rows"
      by (intro map_idI) auto
    with r e Cons.prems(2) show ?thesis by simp
  next
    case False
    with Cons.prems have "filter P rows = [obj]" by simp
    moreover from this have "P obj" by (rule filter_singletonD [THEN conjunct2])
    moreover from this False have "r \<noteq> obj" by auto
    ultimately show ?thesis using False Cons.IH Cons.prems(2) by simp
  qed
qed

lemma filter_replace_row_miss:
  "\<not> Q obj \<Longrightarrow> \<not> Q obj' \<Longrightarrow> filter Q (replace_row obj obj' rows) = filter Q rows"
  unfolding replace_row_def by (induction rows) auto

lemma replace_row_same: "replace_row obj obj rows = rows"
  unfolding replace_row_def by (induction rows) auto

lemma distinct_snoc_next_pk: "distinct (map pk rows) \<Longrightarrow> pk obj = next_pk (map pk rows) \<Longrightarrow>
  distinct (map pk (rows @ [obj]))"
  using next_pk_fresh [of "map pk rows"] by simp

lemma filter_two_cases:
  obtains (none) "filter P xs = []" | (one) x where "filter P xs = [x]" "x \<in> set xs" "P x"
  | (more) x y zs where "filter P xs = x # y # zs"
proof (cases "filter P xs")
  case Nil
  then show ?thesis by (rule none)
next
  case (Cons x rest)
  show ?thesis
  proof (cases rest)
    case Nil
    with Cons have f: "filter P xs = [x]" by simp
    from filter_singletonD [OF f] f show ?thesis by (auto intro: one)
  next
    case (Cons y zs)
    with \<open>filter P xs = x # rest\<close> show ?thesis by (auto intro: more)
  qed
qed

text \<open>The two ways an upsert of a ZendeskUser can return.\<close>

lemma ZendeskUser_update_or_create_cases:
  assumes "pks_distinct db" and "ZendeskUser_update_or_create z d db = (Inr (u, c), db')"
  obtains (created) "filter (\<lambda>r. zu_zendesk_id r = z) (zendesk_users db) = []"
      "zu_id u = next_pk (map zu_id (zendesk_users db))" "zu_zendesk_id u = z"
      "zu_user u = ud_user d" "zu_email u = ud_email d"
      "zu_created_at u = ud_created_at d" "zu_name u = ud_name d"
      "db' = db\<lparr>zendesk_users := zendesk_users db @ [u]\<rparr>"
  | (updated) obj where "filter (\<lambda>r. zu_zendesk_id r = z) (zendesk_users db) = [obj]"
      "zu_id u = zu_id obj" "zu_zendesk_id u = z"
      "zu_user u = ud_user d" "zu_email u = ud_email d"
      "zu_created_at u = ud_created_at d" "zu_name u = ud_name d"
      "db' = db\<lparr>zendesk_users := replace_row obj u (zendesk_users db)\<rparr>"
proof (cases rule: filter_two_cases [of "\<lambda>r. zu_zendesk_id r = z" "zendesk_users db"])
  case none
  with assms(2) show ?thesis
    by (intro created) (auto simp: ZendeskUser_update_or_create_def Let_def)
next
  case (one obj)
  from assms(1) have dist: "distinct (map zu_id (zendesk_users db))"
    by (simp add: pks_distinct_def)
  note rep = replace_by_pk [OF dist one(2)]
  from assms(2) one show ?thesis
    by (intro updated [of obj]) (auto simp: ZendeskUser_update_or_create_def Let_def rep)
next
  case (more x y zs)
  with assms show ?thesis
    by (simp add: ZendeskUser_update_or_create_def)
qed

lemma ZendeskUser_update_or_create_settles:
  assumes "pks_distinct db" and "ZendeskUser_update_or_create z d db = (Inr (u, c), db')"
  shows "pks_distinct db' \<and> zu_settled z d u db'"
  using assms
proof (cases rule: ZendeskUser_update_or_create_cases)
  case created
  have "distinct (map zu_id (zendesk_users db @ [u]))"
    using assms(1) created(2) by (intro distinct_snoc_next_pk) (simp_all add: pks_distinct_def)
  then have "pks_distinct db'"
    using assms(1) unfolding created(8) pks_distinct_def by simp
  moreover have "zu_settled z d u db'"
    unfolding created(8) zu_settled_def using created(1-7) by simp
  ultimately show ?thesis by simp
next
  case (updated obj)
  have "map zu_id (replace_row obj u (zendesk_users db)) = map zu_id (zendesk_users db)"
    using updated(2) by (rule map_pk_replace_row [where pk = zu_id])
  then have "pks_distinct db'"
    using assms(1) unfolding updated(8) pks_distinct_def by simp
  moreover have "filter (\<lambda>r. zu_zendesk_id r = z) (replace_row obj u (zendesk_users db)) = [u]"
    using updated(1,3) by (rule filter_replace_row_hit)
  then have "zu_settled z d u db'"
    unfolding updated(8) zu_settled_def using updated(2-7) by simp
  ultimately show ?thesis by simp
qed

lemma ZendeskUser_update_or_create_settled:
  assumes "pks_distinct db" and "zu_settled z d u db"
  shows "ZendeskUser_update_or_create z d db = (Inr (u, False), db)"
proof -
  from assms(2) have f: "filter (\<lambda>r. zu_zendesk_id r = z) (zendesk_users db) = [u]"
    and same: "u\<lparr>zu_user := ud_user d, zu_email := ud_email d,
                  zu_created_at := ud_created_at d, zu_name := ud_name d\<rparr> = u"
    by (simp_all add: zu_settled_def)
  from filter_singletonD [OF f] have mem: "u \<in> set (zendesk_users db)" by simp
  from assms(1) have dist: "distinct (map zu_id (zendesk_users db))"
    by (simp add: pks_distinct_def)
  have "map (\<lambda>r. if zu_id r = zu_id u then u else r) (zendesk_users db) = zendesk_users db"
    by (simp add: replace_by_pk [OF dist mem] replace_row_same)
  with f same show ?thesis
    by (simp add: ZendeskUser_update_or_create_def Let_def)
qed

lemma ZendeskUser_update_or_create_other:
  assumes "pks_distinct db" and "ZendeskUser_update_or_create z' d' db = (Inr (u', c), db')"
    and "z \<noteq> z'"
  shows "filter (\<lambda>r. zu_zendesk_id r = z) (zendesk_users db')
           = filter (\<lambda>r. zu_zendesk_id r = z) (zendesk_users db)"
  using assms(1,2)
proof (cases rule: ZendeskUser_update_or_create_cases)
  case created
  then show ?thesis using assms(3) by simp
next
  case (updated obj)
  from filter_singletonD [OF updated(1)] have "zu_zendesk_id obj = z'" by simp
  then have "filter (\<lambda>r. zu_zendesk_id r = z) (replace_row obj u' (zendesk_users db))
               = filter (\<lambda>r. zu_zendesk_id r = z) (zendesk_users db)"
    using assms(3) updated(3) by (intro filter_replace_row_miss) auto
  then show ?thesis unfolding updated(8) by simp
qed

lemma Ticket_update_or_create_cases:
  assumes "pks_distinct db" and "Ticket_update_or_create z d db = (Inr (t, c), db')"
  obtains (created) "filter (\<lambda>r. tk_zendesk_id r = z) (tickets db) = []"
      "tk_id t = next_pk (map tk_id (tickets db))" "tk_zendesk_id t = z"
      "tk_settled z d t (db\<lparr>tickets := [t]\<rparr>)"
      "db' = db\<lparr>tickets := tickets db @ [t]\<rparr>"
  | (updated) obj where "filter (\<lambda>r. tk_zendesk_id r = z) (tickets db) = [obj]"
      "tk_id t = tk_id obj" "tk_zendesk_id t = z"
      "tk_settled z d t (db\<lparr>tickets := [t]\<rparr>)"
      "db' = db\<lparr>tickets := replace_row obj t (tickets db)\<rparr>"
proof (cases rule: filter_two_cases [of "\<lambda>r. tk_zendesk_id r = z" "tickets db"])
  case none
  with assms(2) show ?thesis
    by (intro created)
      (auto simp: Ticket_update_or_create_def Let_def tk_settled_def split: option.splits)
next
  case (one obj)
  from assms(1) have dist: "distinct (map tk_id (tickets db))"
    by (simp add: pks_distinct_def)
  note rep = replace_by_pk [OF dist one(2)]
  from assms(2) one show ?thesis
    by (intro updated [of obj])
      (auto simp: Ticket_update_or_create_def Let_def rep tk_settled_def split: option.splits)
next
  case (more x y zs)
  with assms show ?thesis
    by (simp add: Ticket_update_or_create_def)
qed

lemma tk_settled_fields:
  "tk_settled z d t (db\<lparr>tickets := [t]\<rparr>) \<Longrightarrow>
   filter (\<lambda>r. tk_zendesk_id r = z) (tickets db') = [t] \<Longrightarrow> tk_settled z d t db'"
  by (simp add: tk_settled_def)

lemma Ticket_update_or_create_settles:
  assumes "pks_distinct db" and "Ticket_update_or_create z d db = (Inr (t, c), db')"
  shows "pks_distinct db' \<and> tk_settled z d t db'"
  using assms
proof (cases rule: Ticket_update_or_create_cases)
  case created
  have "distinct (map tk_id (tickets db @ [t]))"
    using assms(1) created(2) by (intro distinct_snoc_next_pk) (simp_all add: pks_distinct_def)
  then have "pks_distinct db'"
    using assms(1) unfolding created(5) pks_distinct_def by simp
  moreover have "filter (\<lambda>r. tk_zendesk_id r = z) (tickets db') = [t]"
    unfolding created(5) using created(1,3) by simp
  ultimately show ?thesis using tk_settled_fields [OF created(4)] by simp
next
  case (updated obj)
  have "map tk_id (replace_row obj t (tickets db)) = map tk_id (tickets db)"
    using updated(2) by (rule map_pk_replace_row [where pk = tk_id])
  then have "pks_distinct db'"
    using assms(1) unfolding updated(5) pks_distinct_def by simp
  moreover have "filter (\<lambda>r. tk_zendesk_id r = z) (replace_row obj t (tickets db)) = [t]"
    using updated(1,3) by (rule filter_replace_row_hit)
  then have "filter (\<lambda>r. tk_zendesk_id r = z) (tickets db') = [t]"
    unfolding updated(5) by simp
  ultimately show ?thesis using tk_settled_fields [OF updated(4)] by simp
qed

lemma Ticket_update_or_create_settled:
  assumes "pks_distinct db" and "tk_settled z d t db"
  shows "Ticket_update_or_create z d db = (Inr (t, False), db)"
proof -
  from assms(2) have f: "filter (\<lambda>r. tk_zendesk_id r = z) (tickets db) = [t]"
    and st: "td_status d = Some (tk_status t)"
    and same: "t\<lparr>tk_requester := zu_id (td_requester d),
                  tk_subject := td_subject d, tk_description := td_description d,
                  tk_url := td_url d, tk_status := tk_status t,
                  tk_custom_fields := td_custom_fields d, tk_tags := td_tags d,
                  tk_created_at := td_created_at d,
                  tk_updated_at := td_updated_at d\<rparr> = t"
    by (simp_all add: tk_settled_def)
  from filter_singletonD [OF f] have mem: "t \<in> set (tickets db)" by simp
  from assms(1) have dist: "distinct (map tk_id (tickets db))"
    by (simp add: pks_distinct_def)
  have "map (\<lambda>r. if tk_id r = tk_id t then t else r) (tickets db) = tickets db"
    by (simp add: replace_by_pk [OF dist mem] replace_row_same)
  with f st same show ?thesis
    by (simp add: Ticket_update_or_create_def Let_def)
qed

lemma Comment_update_or_create_cases:
  assumes "pks_distinct db" and "Comment_update_or_create z t d db = (Inr (c, cr), db')"
  obtains (created)
      "filter (\<lambda>r. cm_zendesk_id r = z \<and> cm_ticket r = tk_id t) (comments db) = []"
      "cm_id c = next_pk (map cm_id (comments db))" "cm_zendesk_id c = z" "cm_ticket c = tk_id t"
      "cm_settled z t d c (db\<lparr>comments := [c]\<rparr>)"
      "db' = db\<lparr>comments := comments db @ [c]\<rparr>"
  | (updated) obj where
      "filter (\<lambda>r. cm_zendesk_id r = z \<and> cm_ticket r = tk_id t) (comments db) = [obj]"
      "cm_id c = cm_id obj" "cm_zendesk_id c = z" "cm_ticket c = tk_id t"
      "cm_settled z t d c (db\<lparr>comments := [c]\<rparr>)"
      "db' = db\<lparr>comments := replace_row obj c (comments db)\<rparr>"
proof (cases rule: filter_two_cases
    [of "\<lambda>r. cm_zendesk_id r = z \<and> cm_ticket r = tk_id t" "comments db"])
  case none
  with assms(2) show ?thesis
    by (intro created)
      (auto simp: Comment_update_or_create_def Let_def cm_settled_def split: if_splits)
next
  case (one obj)
  from assms(1) have dist: "distinct (map cm_id (comments db))"
    by (simp add: pks_distinct_def)
  note rep = replace_by_pk [OF dist one(2)]
  from assms(2) one show ?thesis
    by (intro updated [of obj])
      (auto simp: Comment_update_or_create_def Let_def rep cm_settled_def)
next
  case (more x y zs)
  with assms show ?thesis
    by (simp add: Comment_update_or_create_def)
qed

lemma cm_settled_fields:
  "cm_settled z t d c (db\<lparr>comments := [c]\<rparr>) \<Longrightarrow>
   filter (\<lambda>r. cm_zendesk_id r = z \<and> cm_ticket r = tk_id t) (comments db') = [c] \<Longrightarrow>
   cm_settled z t d c db'"
  by (simp add: cm_settled_def)

lemma Comment_update_or_create_settles:
  assumes "pks_distinct db" and "Comment_update_or_create z t d db = (Inr (c, cr), db')"
  shows "pks_distinct db' \<and> cm_settled z t d c db'"
  using assms
proof (cases rule: Comment_update_or_create_cases)
  case created
  have "distinct (map cm_id (comments db @ [c]))"
    using assms(1) created(2) by (intro distinct_snoc_next_pk) (simp_all add: pks_distinct_def)
  then have "pks_distinct db'"
    using assms(1) unfolding created(6) pks_distinct_def by simp
  moreover have "filter (\<lambda>r. cm_zendesk_id r = z \<and> cm_ticket r = tk_id t) (comments db') = [c]"
    unfolding created(6) using created(1,3,4) by simp
  ultimately show ?thesis using cm_settled_fields [OF created(5)] by simp
next
  case (updated obj)
  have "map cm_id (replace_row obj c (comments db)) = map cm_id (comments db)"
    using updated(2) by (rule map_pk_replace_row [where pk = cm_id])
  then have "pks_distinct db'"
    using assms(1) unfolding updated(6) pks_distinct_def by simp
  moreover have "filter (\<lambda>r. cm_zendesk_id r = z \<and> cm_ticket r = tk_id t)
                   (replace_row obj c (comments db)) = [c]"
    using updated(1) by (rule filter_replace_row_hit) (simp add: updated(3,4))
  then have "filter (\<lambda>r. cm_zendesk_id r = z \<and> cm_ticket r = tk_id t) (comments db') = [c]"
    unfolding updated(6) by simp
  ultimately show ?thesis using cm_settled_fields [OF updated(5)] by simp
qed

lemma Comment_update_or_create_settled:
  assumes "pks_distinct db" and "cm_settled z t d c db"
  shows "Comment_update_or_create z t d db = (Inr (c, False), db)"
proof -
  from assms(2) have
    f: "filter (\<lambda>r. cm_zendesk_id r = z \<and> cm_ticket r = tk_id t) (comments db) = [c]"
    and same: "c\<lparr>cm_author := zu_id (cd_author d), cm_body := cd_body d,
                  cm_public := cd_public d, cm_created_at := cd_created_at d\<rparr> = c"
    by (simp_all add: cm_settled_def)
  from filter_singletonD [OF f] have mem: "c \<in> set (comments db)" by simp
  from assms(1) have dist: "distinct (map cm_id (comments db))"
    by (simp add: pks_distinct_def)
  have "map (\<lambda>r. if cm_id r = cm_id c then c else r) (comments db) = comments db"
    by (simp add: replace_by_pk [OF dist mem] replace_row_same)
  with f same show ?thesis
    by (simp add: Comment_update_or_create_def Let_def)
qed

lemma Comment_update_or_create_other:
  assumes "pks_distinct db" and "Comment_update_or_create z' t d' db = (Inr (c', cr), db')"
    and "z \<noteq> z'"
  shows "filter (\<lambda>r. cm_zendesk_id r = z \<and> cm_ticket r = tk_id t) (comments db')
           = filter (\<lambda>r. cm_zendesk_id r = z \<and> cm_ticket r = tk_id t) (comments db)"
  using assms(1,2)
proof (cases rule: Comment_update_or_create_cases)
  case created
  then show ?thesis using assms(3) by simp
next
  case (updated obj)
  from filter_singletonD [OF updated(1)] have "cm_zendesk_id obj = z'" by simp
  then have "filter (\<lambda>r. cm_zendesk_id r = z \<and> cm_ticket r = tk_id t)
                (replace_row obj c' (comments db))
               = filter (\<lambda>r. cm_zendesk_id r = z \<and> cm_ticket r = tk_id t) (comments db)"
    using assms(3) updated(3) by (intro filter_replace_row_miss) auto
  then show ?thesis unfolding updated(6) by simp
qed

lemma user_settled_unique:
  assumes "user_settled env ru u db" and "user_settled env ru u' db"
  shows "u = u'"
proof -
  from assms(1) have "filter (\<lambda>r. zu_zendesk_id r = ru_id ru) (zendesk_users db) = [u]"
    unfolding user_settled_def zu_settled_def by blast
  moreover from assms(2)
  have "filter (\<lambda>r. zu_zendesk_id r = ru_id ru) (zendesk_users db) = [u']"
    unfolding user_settled_def zu_settled_def by blast
  ultimately have "[u] = [u']" by (rule trans [OF sym])
  then show ?thesis by simp
qed

lemma user_settled_cong:
  "zendesk_users db' = zendesk_users db \<Longrightarrow>
   user_settled env ru u db' \<longleftrightarrow> user_settled env ru u db"
  unfolding user_settled_def zu_settled_def by simp

lemma cm_settled_cong:
  "comments db' = comments db \<Longrightarrow> cm_settled z t d c db' \<longleftrightarrow> cm_settled z t d c db"
  by (simp add: cm_settled_def)

lemma tk_settled_cong:
  "tickets db' = tickets db \<Longrightarrow> tk_settled z d t db' \<longleftrightarrow> tk_settled z d t db"
  by (simp add: tk_settled_def)

lemma pks_distinct_cong:
  "zendesk_users db' = zendesk_users db \<Longrightarrow> tickets db' = tickets db \<Longrightarrow>
   comments db' = comments db \<Longrightarrow> pks_distinct db' \<longleftrightarrow> pks_distinct db"
  by (simp add: pks_distinct_def)

lemma local_zd_user_settles:
  assumes "pks_distinct db"
    and "update_or_create_local_zd_user_for_remote_zd_user env ru db = (Inr u, db')"
  shows "pks_distinct db' \<and> user_settled env ru u db'"
proof -
  from assms(2) obtain user c where
    "get_local_user_for_external_id env (ru_external_id ru) = Inr user"
    "ZendeskUser_update_or_create (ru_id ru)
       \<lparr>ud_user = user, ud_email = ru_email ru, ud_created_at = ru_created_at ru,
        ud_name = ru_name ru\<rparr> db = (Inr (u, c), db')"
    by (auto simp: update_or_create_local_zd_user_for_remote_zd_user_def
          split: sum.splits prod.splits)
  with ZendeskUser_update_or_create_settles [OF assms(1) this(2)] show ?thesis
    by (auto simp: user_settled_def)
qed

lemma local_zd_user_settled:
  assumes "pks_distinct db" and "user_settled env ru u db"
  shows "update_or_create_local_zd_user_for_remote_zd_user env ru db = (Inr u, db)"
proof -
  from assms(2) obtain user where
    u: "get_local_user_for_external_id env (ru_external_id ru) = Inr user"
    and s: "zu_settled (ru_id ru)
             \<lparr>ud_user = user, ud_email = ru_email ru, ud_created_at = ru_created_at ru,
              ud_name = ru_name ru\<rparr> u db"
    by (auto simp: user_settled_def)
  from ZendeskUser_update_or_create_settled [OF assms(1) s] u show ?thesis
    by (simp add: update_or_create_local_zd_user_for_remote_zd_user_def)
qed

lemma local_zd_user_preserves:
  assumes "pks_distinct db"
    and "update_or_create_local_zd_user_for_remote_zd_user env ru' db = (Inr u', db')"
    and "ru_id ru' = ru_id ru \<longrightarrow> ru' = ru"
    and "user_settled env ru u db"
  shows "user_settled env ru u db'"
proof (cases "ru' = ru")
  case True
  with local_zd_user_settled [OF assms(1,4)] assms(2) have "db' = db" by simp
  with assms(4) show ?thesis by simp
next
  case False
  with assms(3) have ne: "ru_id ru \<noteq> ru_id ru'" by auto
  from assms(2) obtain user c where
    "ZendeskUser_update_or_create (ru_id ru')
       \<lparr>ud_user = user, ud_email = ru_email ru', ud_created_at = ru_created_at ru',
        ud_name = ru_name ru'\<rparr> db = (Inr (u', c), db')"
    by (auto simp: update_or_create_local_zd_user_for_remote_zd_user_def
          split: sum.splits prod.splits)
  from ZendeskUser_update_or_create_other [OF assms(1) this ne] assms(4)
  show ?thesis
    by (simp add: user_settled_def zu_settled_def)
qed

lemma comment_author_step:
  assumes "pks_distinct db" and "inj_on ru_id S" and "ru \<in> S"
    and "user_map_settled env S um db"
    and "comment_author env um ru db = (Inr (author, um'), db1)"
  shows "pks_distinct db1 \<and> user_settled env ru author db1 \<and> user_map_settled env S um' db1
         \<and> (\<forall>ru0 \<in> S. \<forall>u0. user_settled env ru0 u0 db \<longrightarrow> user_settled env ru0 u0 db1)
         \<and> comments db1 = comments db"
proof (cases "um ru")
  case None
  with assms(5) have
    up: "update_or_create_local_zd_user_for_remote_zd_user env ru db = (Inr author, db1)"
    and um': "um' = um(ru \<mapsto> author)"
    by (auto simp: comment_author_def split: sum.splits prod.splits)
  from local_zd_user_settles [OF assms(1) up]
  have d1: "pks_distinct db1" and s1: "user_settled env ru author db1" by simp_all
  have pres: "user_settled env ru0 u0 db1" if "ru0 \<in> S" "user_settled env ru0 u0 db" for ru0 u0
  proof -
    from assms(2,3) that(1) have "ru_id ru = ru_id ru0 \<longrightarrow> ru = ru0"
      by (auto dest: inj_onD)
    from local_zd_user_preserves [OF assms(1) up this that(2)] show ?thesis .
  qed
  have "user_map_settled env S um' db1"
    using assms(3,4) s1 pres unfolding um' user_map_settled_def by auto
  moreover from update_or_create_local_zd_user_frame [OF up]
  have "comments db1 = comments db" by simp
  ultimately show ?thesis using d1 s1 pres by blast
next
  case (Some a)
  with assms(5) have e: "author = a" "um' = um" "db1 = db"
    by (auto simp: comment_author_def)
  from assms(4) Some have "user_settled env ru a db"
    by (simp add: user_map_settled_def)
  with e assms(1,4) show ?thesis by simp
qed

lemma comment_author_settled:
  assumes "pks_distinct db" and "user_settled env ru u db"
    and "\<forall>ru u. um ru = Some u \<longrightarrow> user_settled env ru u db"
  shows "\<exists>um'. comment_author env um ru db = (Inr (u, um'), db)
           \<and> (\<forall>ru u. um' ru = Some u \<longrightarrow> user_settled env ru u db)"
proof (cases "um ru")
  case None
  with local_zd_user_settled [OF assms(1,2)] assms(2,3) show ?thesis
    by (auto simp: comment_author_def)
next
  case (Some a)
  with assms(3) have "user_settled env ru a db" by simp
  with assms(2) have "a = u" by (rule user_settled_unique [symmetric])
  with Some assms(3) show ?thesis
    by (auto simp: comment_author_def)
qed

lemma comment_step:
  assumes "pks_distinct db1" and "user_settled env (rc_author rc) author db1"
    and "Comment_update_or_create (rc_id rc) t
           \<lparr>cd_author = author, cd_body = rc_body rc, cd_public = rc_public rc,
            cd_created_at = rc_created_at rc\<rparr> db1 = (Inr (c, cr), db2)"
  shows "pks_distinct db2 \<and> comment_synced env t rc db2
         \<and> zendesk_users db2 = zendesk_users db1
         \<and> (\<forall>rc0. (rc_id rc0 = rc_id rc \<longrightarrow> rc0 = rc) \<longrightarrow>
               comment_synced env t rc0 db1 \<longrightarrow> comment_synced env t rc0 db2)"
proof -
  from Comment_update_or_create_frame [OF assms(3)]
  have users: "zendesk_users db2 = zendesk_users db1" by simp
  from Comment_update_or_create_settles [OF assms(1,3)]
  have d2: "pks_distinct db2"
    and s2: "cm_settled (rc_id rc) t
           \<lparr>cd_author = author, cd_body = rc_body rc, cd_public = rc_public rc,
            cd_created_at = rc_created_at rc\<rparr> c db2" by simp_all
  from assms(2) have a2: "user_settled env (rc_author rc) author db2"
    by (simp only: user_settled_cong [OF users])
  from a2 s2 have synced: "comment_synced env t rc db2"
    unfolding comment_synced_def by blast
  have pres: "comment_synced env t rc0 db2"
    if "rc_id rc0 = rc_id rc \<longrightarrow> rc0 = rc" "comment_synced env t rc0 db1" for rc0
  proof (cases "rc0 = rc")
    case True
    with synced show ?thesis by simp
  next
    case False
    with that(1) have ne: "rc_id rc0 \<noteq> rc_id rc" by auto
    from that(2) obtain u0 c0 where
      u0: "user_settled env (rc_author rc0) u0 db1"
      and c0: "cm_settled (rc_id rc0) t
             \<lparr>cd_author = u0, cd_body = rc_body rc0, cd_public = rc_public rc0,
              cd_created_at = rc_created_at rc0\<rparr> c0 db1"
      unfolding comment_synced_def by blast
    from u0 have "user_settled env (rc_author rc0) u0 db2"
      by (simp only: user_settled_cong [OF users])
    moreover from c0
    have "cm_settled (rc_id rc0) t
             \<lparr>cd_author = u0, cd_body = rc_body rc0, cd_public = rc_public rc0,
              cd_created_at = rc_created_at rc0\<rparr> c0 db2"
      unfolding cm_settled_def
      by (simp only: Comment_update_or_create_other [OF assms(1,3) ne])
    ultimately show ?thesis unfolding comment_synced_def by blast
  qed
  from d2 synced users pres show ?thesis by blast
qed

lemma sync_comments_loop_settles:
  assumes "inj_on ru_id S" and "inj_on rc_id R" and "rc_author ` R \<subseteq> S"
  shows "pks_distinct db \<Longrightarrow> set rcs \<subseteq> R \<Longrightarrow> user_map_settled env S um db \<Longrightarrow>
         sync_comments_loop env t rcs um acc db = (Inr res, db') \<Longrightarrow>
         pks_distinct db' \<and> (\<forall>rc \<in> set rcs. comment_synced env t rc db')
         \<and> (\<forall>rc \<in> R. comment_synced env t rc db \<longrightarrow> comment_synced env t rc db')
         \<and> (\<forall>ru \<in> S. \<forall>u. user_settled env ru u db \<longrightarrow> user_settled env ru u db')"
proof (induction rcs arbitrary: um acc db)
  case Nil
  then show ?case by simp
next
  case (Cons rc rcs)
  from Cons.prems(2) have rcR: "rc \<in> R" and sub: "set rcs \<subseteq> R" by simp_all
  with assms(3) have auS: "rc_author rc \<in> S" by auto
  from Cons.prems(4) obtain author um' db1 c cr db2 where
    au: "comment_author env um (rc_author rc) db = (Inr (author, um'), db1)"
    and cm: "Comment_update_or_create (rc_id rc) t
           \<lparr>cd_author = author, cd_body = rc_body rc, cd_public = rc_public rc,
            cd_created_at = rc_created_at rc\<rparr> db1 = (Inr (c, cr), db2)"
    and rest: "sync_comments_loop env t rcs um' (acc @ [c]) db2 = (Inr res, db')"
    by (auto split: sum.splits prod.splits)
  from comment_author_step [OF Cons.prems(1) assms(1) auS Cons.prems(3) au]
  have d1: "pks_distinct db1" and a1: "user_settled env (rc_author rc) author db1"
    and m1: "user_map_settled env S um' db1"
    and u01: "\<And>ru0 u0. ru0 \<in> S \<Longrightarrow> user_settled env ru0 u0 db \<Longrightarrow> user_settled env ru0 u0 db1"
    and c01: "comments db1 = comments db"
    by blast+
  from comment_step [OF d1 a1 cm]
  have d2: "pks_distinct db2" and s2: "comment_synced env t rc db2"
    and u12: "zendesk_users db2 = zendesk_users db1"
    and c12: "\<And>rc0. (rc_id rc0 = rc_id rc \<longrightarrow> rc0 = rc) \<Longrightarrow>
               comment_synced env t rc0 db1 \<Longrightarrow> comment_synced env t rc0 db2"
    by blast+
  from m1 have m2: "user_map_settled env S um' db2"
    unfolding user_map_settled_def by (simp only: user_settled_cong [OF u12])
  from Cons.IH [OF d2 sub m2 rest]
  have d': "pks_distinct db'" and all': "\<forall>rc \<in> set rcs. comment_synced env t rc db'"
    and c2': "\<And>rc0. rc0 \<in> R \<Longrightarrow> comment_synced env t rc0 db2 \<Longrightarrow> comment_synced env t rc0 db'"
    and u2': "\<And>ru0 u0. ru0 \<in> S \<Longrightarrow> user_settled env ru0 u0 db2 \<Longrightarrow> user_settled env ru0 u0 db'"
    by blast+
  have u0': "user_settled env ru0 u0 db'" if "ru0 \<in> S" "user_settled env ru0 u0 db" for ru0 u0
    using u2' [OF that(1)] u01 [OF that] by (simp only: user_settled_cong [OF u12])
  have c0': "comment_synced env t rc0 db'" if "rc0 \<in> R" "comment_synced env t rc0 db" for rc0
  proof -
    from that(2) obtain u0 c0 where
      u0: "user_settled env (rc_author rc0) u0 db"
      and c0: "cm_settled (rc_id rc0) t
             \<lparr>cd_author = u0, cd_body = rc_body rc0, cd_public = rc_public rc0,
              cd_created_at = rc_created_at rc0\<rparr> c0 db"
      unfolding comment_synced_def by blast
    from that(1) assms(3) have "rc_author rc0 \<in> S" by auto
    from c0 have "cm_settled (rc_id rc0) t
             \<lparr>cd_author = u0, cd_body = rc_body rc0, cd_public = rc_public rc0,
              cd_created_at = rc_created_at rc0\<rparr> c0 db1"
      by (simp only: cm_settled_cong [OF c01])
    with u01 [OF \<open>rc_author rc0 \<in> S\<close> u0] have "comment_synced env t rc0 db1"
      unfolding comment_synced_def by blast
    moreover from assms(2) rcR that(1) have "rc_id rc0 = rc_id rc \<longrightarrow> rc0 = rc"
      by (auto dest: inj_onD)
    ultimately have "comment_synced env t rc0 db2" by (intro c12)
    then show ?thesis by (rule c2' [OF that(1)])
  qed
  from c2' [OF rcR s2] have "comment_synced env t rc db'" .
  with d' all' u0' c0' show ?case by auto
qed

lemma sync_comments_loop_settled:
  "pks_distinct db \<Longrightarrow> \<forall>rc \<in> set rcs. comment_synced env t rc db \<Longrightarrow>
   \<forall>ru u. um ru = Some u \<longrightarrow> user_settled env ru u db \<Longrightarrow>
   \<exists>res. sync_comments_loop env t rcs um acc db = (Inr res, db)"
proof (induction rcs arbitrary: um acc)
  case Nil
  then show ?case by simp
next
  case (Cons rc rcs)
  from Cons.prems(2) obtain u c where
    u: "user_settled env (rc_author rc) u db"
    and c: "cm_settled (rc_id rc) t
             \<lparr>cd_author = u, cd_body = rc_body rc, cd_public = rc_public rc,
              cd_created_at = rc_created_at rc\<rparr> c db"
    unfolding comment_synced_def by auto
  from comment_author_settled [OF Cons.prems(1) u Cons.prems(3)] obtain um' where
    au: "comment_author env um (rc_author rc) db = (Inr (u, um'), db)"
    and m': "\<forall>ru u. um' ru = Some u \<longrightarrow> user_settled env ru u db"
    by blast
  from Comment_update_or_create_settled [OF Cons.prems(1) c]
  have cm: "Comment_update_or_create (rc_id rc) t
             \<lparr>cd_author = u, cd_body = rc_body rc, cd_public = rc_public rc,
              cd_created_at = rc_created_at rc\<rparr> db = (Inr (c, False), db)" .
  from Cons.prems(2) have "\<forall>rc \<in> set rcs. comment_synced env t rc db" by simp
  from Cons.IH [OF Cons.prems(1) this m', of "acc @ [c]"] au cm
  show ?case by simp
qed

lemma sync_ticket_settles:
  assumes "pks_distinct db" and "client_tickets_comments env (rt_id rt) = Inr rcs"
    and "remote_consistent rt rcs" and "sync_ticket env rt db = (Inr (t, created), db1)"
  shows "sync_ticket env rt db1 = (Inr (t, False), db1)
         \<and> (\<forall>rc \<in> set rcs. comment_synced env t rc db1)"
proof -
  let ?D = "\<lambda>u. \<lparr>td_requester = u, td_subject = rt_subject rt,
                  td_description = rt_description rt, td_url = rt_url rt,
                  td_status = states_by_id (lower (rt_status rt)),
                  td_custom_fields = rt_custom_fields rt, td_tags = rt_tags rt,
                  td_created_at = rt_created_at rt, td_updated_at = rt_updated_at rt\<rparr>"
  let ?S = "insert (rt_requester rt) (rc_author ` set rcs)"
  from assms(4) obtain u dbA dbB lcs where
    up: "update_or_create_local_zd_user_for_remote_zd_user env (rt_requester rt) db = (Inr u, dbA)"
    and tk: "Ticket_update_or_create (rt_id rt) (?D u) dbA = (Inr (t, created), dbB)"
    and sc: "sync_comments env rt t u dbB = (Inr lcs, db1)"
    by (auto simp: sync_ticket_def split: sum.splits prod.splits)
  from sc assms(2) obtain res where
    loop: "sync_comments_loop env t rcs [rt_requester rt \<mapsto> u] [] dbB = (Inr res, db1)"
    by (auto simp: sync_comments_def split: sum.splits prod.splits)
  from local_zd_user_settles [OF assms(1) up]
  have dA: "pks_distinct dbA" and sA: "user_settled env (rt_requester rt) u dbA" by simp_all
  from Ticket_update_or_create_settles [OF dA tk]
  have dB: "pks_distinct dbB" and tB: "tk_settled (rt_id rt) (?D u) t dbB" by simp_all
  from Ticket_update_or_create_frame [OF tk]
  have usersB: "zendesk_users dbB = zendesk_users dbA" by simp
  from sA have sB: "user_settled env (rt_requester rt) u dbB"
    by (simp only: user_settled_cong [OF usersB])
  then have mB: "user_map_settled env ?S [rt_requester rt \<mapsto> u] dbB"
    unfolding user_map_settled_def by (auto split: if_splits)
  from assms(3) have injS: "inj_on ru_id ?S" and injR: "inj_on rc_id (set rcs)"
    by (simp_all add: remote_consistent_def)
  have sub: "rc_author ` set rcs \<subseteq> ?S" by auto
  note settles = sync_comments_loop_settles [OF injS injR sub dB subset_refl mB loop]
  from settles have d1: "pks_distinct db1" by (rule conjunct1)
  from settles have all1: "\<forall>rc \<in> set rcs. comment_synced env t rc db1" by blast
  from settles have "\<forall>ru \<in> ?S. \<forall>u. user_settled env ru u dbB \<longrightarrow> user_settled env ru u db1"
    by blast
  with sB have s1: "user_settled env (rt_requester rt) u db1" by blast
  from sync_comments_loop_frame [OF loop] have ticketsB: "tickets db1 = tickets dbB" by simp
  from tB have t1: "tk_settled (rt_id rt) (?D u) t db1"
    by (simp only: tk_settled_cong [OF ticketsB])
  have up1: "update_or_create_local_zd_user_for_remote_zd_user env (rt_requester rt) db1
               = (Inr u, db1)"
    by (rule local_zd_user_settled [OF d1 s1])
  have tk1: "Ticket_update_or_create (rt_id rt) (?D u) db1 = (Inr (t, False), db1)"
    by (rule Ticket_update_or_create_settled [OF d1 t1])
  from s1 have "\<forall>ru u'. [rt_requester rt \<mapsto> u] ru = Some u' \<longrightarrow> user_settled env ru u' db1"
    by (auto split: if_splits)
  from sync_comments_loop_settled [OF d1 all1 this, of "[]"] obtain res1 where
    "sync_comments_loop env t rcs [rt_requester rt \<mapsto> u] [] db1 = (Inr res1, db1)" by blast
  with assms(2) have sc1: "\<exists>lcs1. sync_comments env rt t u db1 = (Inr lcs1, db1)"
    by (simp add: sync_comments_def)
  from up1 tk1 sc1 have "sync_ticket env rt db1 = (Inr (t, False), db1)"
    by (auto simp: sync_ticket_def)
  with all1 show ?thesis by simp
qed

text \<open>
  C5. Let the primary keys of the store be pairwise different and the remote side be a
  consistent snapshot of the ticket and its comments. If \<open>sync_ticket_id\<close> returns a ticket
  and a flag, then the flag is true exactly when no Ticket row with that remote id existed,
  and a second call on the resulting store with the same remote state returns the same
  ticket with the flag false and leaves the store exactly as it was: no row is added, and
  each remote comment has exactly one row under the ticket.
\<close>

theorem sync_ticket_id_idempotent:
  assumes "pks_distinct db"
    and "client_tickets env ticket_id = Inr rt"
    and "client_tickets_comments env (rt_id rt) = Inr rcs"
    and "remote_consistent rt rcs"
    and "sync_ticket_id env ticket_id db = (Inr (t, created), db1)"
  shows "sync_ticket_id env ticket_id db1 = (Inr (t, False), db1)
         \<and> (created \<longleftrightarrow> (\<forall>r \<in> set (tickets db). tk_zendesk_id r \<noteq> rt_id rt))
         \<and> (\<forall>rc \<in> set rcs.
               length (filter (\<lambda>r. cm_zendesk_id r = rc_id rc \<and> cm_ticket r = tk_id t)
                         (comments db1)) = 1)"
proof -
  from assms(2,5) have st: "sync_ticket env rt db = (Inr (t, created), db1)"
    by (simp add: sync_ticket_id_def)
  from sync_ticket_settles [OF assms(1,3,4) st]
  have again: "sync_ticket env rt db1 = (Inr (t, False), db1)"
    and all1: "\<forall>rc \<in> set rcs. comment_synced env t rc db1" by simp_all
  from again assms(2) have "sync_ticket_id env ticket_id db1 = (Inr (t, False), db1)"
    by (simp add: sync_ticket_id_def)
  moreover from sync_ticket_result [OF st]
  have "created \<longleftrightarrow> (\<forall>r \<in> set (tickets db). tk_zendesk_id r \<noteq> rt_id rt)" by simp
  moreover have "length (filter (\<lambda>r. cm_zendesk_id r = rc_id rc \<and> cm_ticket r = tk_id t)
                         (comments db1)) = 1" if "rc \<in> set rcs" for rc
  proof -
    from all1 that obtain c where
      "filter (\<lambda>r. cm_zendesk_id r = rc_id rc \<and> cm_ticket r = tk_id t) (comments db1) = [c]"
      unfolding comment_synced_def cm_settled_def by blast
    then show ?thesis by simp
  qed
  ultimately show ?thesis by blast
qed

theorem sync_ticket_id_idempotent_witness:
  "sync_ticket_id commented_env 42 empty_db = (Inr (local_ticket_42, True), db_commented)
   \<and> sync_ticket_id commented_env 42 db_commented = (Inr (local_ticket_42, False), db_commented)
   \<and> comments db_commented = [comment_one, comment_two]"
proof -
  have first: "sync_ticket_id commented_env 42 empty_db
                 = (Inr (local_ticket_42, True), db_commented)"
    by code_simp
  have d: "pks_distinct empty_db"
    by (simp add: pks_distinct_def empty_db_def)
  have rt: "client_tickets commented_env 42 = Inr remote_ticket_42"
    by (simp add: commented_env_def example_env_def)
  have rcs: "client_tickets_comments commented_env (rt_id remote_ticket_42)
               = Inr [remote_comment_one, remote_comment_two]"
    by (simp add: commented_env_def example_env_def)
  have c: "remote_consistent remote_ticket_42 [remote_comment_one, remote_comment_two]"
    by (simp add: remote_consistent_def remote_ticket_42_def remote_comment_one_def
          remote_comment_two_def alice_def bob_def)
  from sync_ticket_id_idempotent [OF d rt rcs c first] first show ?thesis
    by (simp add: db_commented_def)
qed

end
